theory Spec2Isabelle
  imports Complex_Main
begin

section \<open>Tensors and the tensor engine\<close>

text \<open>
  The model of \<^verbatim>\<open>model.py\<close> works on dense float tensors of rank 1 to 4. A tensor is a
  nested list in row-major order, its entries are reals. The functions of this section
  are the operations of the tensor engine that the source calls; each one that can
  reject its arguments returns a value of \<open>error + _\<close>.
\<close>

datatype error = ShapeMismatch | ZeroDivisionError

type_synonym t1 = "real list"
type_synonym t2 = "real list list"
type_synonym t3 = "real list list list"
type_synonym t4 = "real list list list list"

definition shape2 :: "nat \<Rightarrow> nat \<Rightarrow> 'a list list \<Rightarrow> bool" where
  "shape2 d0 d1 x \<longleftrightarrow> length x = d0 \<and> list_all (\<lambda>r. length r = d1) x"

definition shape3 :: "nat \<Rightarrow> nat \<Rightarrow> nat \<Rightarrow> 'a list list list \<Rightarrow> bool" where
  "shape3 d0 d1 d2 x \<longleftrightarrow> length x = d0 \<and> list_all (shape2 d1 d2) x"

definition shape4 :: "nat \<Rightarrow> nat \<Rightarrow> nat \<Rightarrow> nat \<Rightarrow> 'a list list list list \<Rightarrow> bool" where
  "shape4 d0 d1 d2 d3 x \<longleftrightarrow> length x = d0 \<and> list_all (shape3 d1 d2 d3) x"

text \<open>The row-major buffer of a tensor of rank 3 or 4.\<close>

definition flat3 :: "'a list list list \<Rightarrow> 'a list" where
  "flat3 x = concat (map concat x)"

definition flat4 :: "'a list list list list \<Rightarrow> 'a list" where
  "flat4 x = concat (map flat3 x)"

text \<open>
  \<^verbatim>\<open>tf.reshape(t, [d0, d1, d2, d3])\<close> reads the row-major buffer of \<open>t\<close> back under
  the new shape, and fails when the number of elements differs.
\<close>

definition reshape4 :: "nat \<Rightarrow> nat \<Rightarrow> nat \<Rightarrow> nat \<Rightarrow> 'a list \<Rightarrow> error + 'a list list list list" where
  "reshape4 d0 d1 d2 d3 buf =
     (if length buf = d0 * d1 * d2 * d3
      then Inr (map (\<lambda>a. map (\<lambda>b. map (\<lambda>c. map (\<lambda>d.
                  buf ! (((a * d1 + b) * d2 + c) * d3 + d))
                [0..<d3]) [0..<d2]) [0..<d1]) [0..<d0])
      else Inl ShapeMismatch)"

text \<open>\<^verbatim>\<open>tf.tile\<close>: \<open>m\<close> copies along an axis, one after the other.\<close>

definition tile1 :: "nat \<Rightarrow> 'a list \<Rightarrow> 'a list" where
  "tile1 m xs = concat (replicate m xs)"

definition tile3 :: "nat \<Rightarrow> nat \<Rightarrow> nat \<Rightarrow> 'a list list list \<Rightarrow> 'a list list list" where
  "tile3 m0 m1 m2 x = tile1 m0 (map (\<lambda>a. tile1 m1 (map (tile1 m2) a)) x)"

definition tile4 :: "nat \<Rightarrow> nat \<Rightarrow> nat \<Rightarrow> nat \<Rightarrow> 'a list list list list \<Rightarrow> 'a list list list list" where
  "tile4 m0 m1 m2 m3 x = tile1 m0 (map (\<lambda>a. tile1 m1 (map (\<lambda>b. tile1 m2 (map (tile1 m3) b)) a)) x)"

text \<open>The Python slice \<^verbatim>\<open>xs[i::step]\<close> for \<open>step > 0\<close>.\<close>

definition strided :: "nat \<Rightarrow> nat \<Rightarrow> 'a list \<Rightarrow> 'a list" where
  "strided i step xs = map (\<lambda>k. xs ! (i + k * step)) [0..<(length xs - i + step - 1) div step]"

text \<open>
  The number of indices that the slice \<^verbatim>\<open>[i::step]\<close> selects on an axis of extent \<open>n\<close>.
\<close>

definition slice_extent :: "nat \<Rightarrow> nat \<Rightarrow> nat \<Rightarrow> nat" where
  "slice_extent i step n = (n - i + step - 1) div step"

text \<open>
  A Python list of tensors handed to a tensor operation is packed into one tensor with a
  new leading axis. Every member comes with its static shape behind the batch axis, which
  the graph knows when it is built, whatever the batch is. Packing fails unless all
  members have the same static shape, and the same shape when they are evaluated; the
  empty list packs to an empty vector, on which a reduction along axis 3 is rejected.
\<close>

definition stack3 :: "(nat list \<times> 'a list list list) list \<Rightarrow> error + 'a list list list list" where
  "stack3 ts =
     (case ts of
        [] \<Rightarrow> Inl ShapeMismatch
      | t # rest \<Rightarrow>
          if list_all (\<lambda>u. fst u = fst t
                            \<and> map (map length) (snd u) = map (map length) (snd t)) rest
          then Inr (map snd ts) else Inl ShapeMismatch)"

definition reduce_sum_axis3 :: "t4 \<Rightarrow> t3" where
  "reduce_sum_axis3 x = map (map (map sum_list)) x"

section \<open>Configuration\<close>

text \<open>
  The module \<^verbatim>\<open>constants\<close> is not part of the sources at hand. Its names are the fields
  of a record that every function takes as its first argument.
\<close>

record config =
  NUM_NOTES :: nat
  OCTAVE :: nat
  NUM_OCTAVES :: nat
  NUM_STYLES :: nat
  SEQ_LEN :: nat
  STYLE_UNITS :: nat
  BEAT_UNITS :: nat
  OCTAVE_UNITS :: nat
  TIME_AXIS_UNITS :: nat
  TIME_AXIS_LAYERS :: nat
  NOTE_AXIS_UNITS :: nat
  NOTE_AXIS_LAYERS :: nat

text \<open>
  The configuration of the end-to-end scenario: 48 notes in 4 octaves of 12, 4 styles,
  windows of 16 time steps; small layers.
\<close>

definition example_config :: config where
  "example_config =
     \<lparr>NUM_NOTES = 48, OCTAVE = 12, NUM_OCTAVES = 4, NUM_STYLES = 4, SEQ_LEN = 16,
      STYLE_UNITS = 3, BEAT_UNITS = 2, OCTAVE_UNITS = 2, TIME_AXIS_UNITS = 3,
      TIME_AXIS_LAYERS = 2, NOTE_AXIS_UNITS = 2, NOTE_AXIS_LAYERS = 2\<rparr>"

section \<open>Per-note feature constructors\<close>

text \<open>
  \<^verbatim>\<open>pitch_pos_in_f(time_steps)\<close> returns the function \<open>f\<close>; the model below is \<open>f\<close> with
  \<open>time_steps\<close> as an argument. \<^verbatim>\<open>tf.shape(x)[0]\<close> is \<open>length x\<close>.
\<close>

definition pitch_pos_in_f :: "config \<Rightarrow> nat \<Rightarrow> t4 \<Rightarrow> error + t4" where
  "pitch_pos_in_f cfg time_steps x =
     (let note_ranges = map (\<lambda>i. real i / real (NUM_NOTES cfg)) [0..<NUM_NOTES cfg];
          repeated_ranges = tile1 (length x * time_steps) note_ranges
      in reshape4 (length x) time_steps (NUM_NOTES cfg) 1 repeated_ranges)"

text \<open>
  Modelled from the spec: \<^verbatim>\<open>one_hot\<close> of the module \<^verbatim>\<open>util\<close>, which is not part of the
  sources at hand: the vector of \<open>n\<close> zeros with a one stored at index \<open>i\<close>.
\<close>

definition one_hot :: "nat \<Rightarrow> nat \<Rightarrow> t1" where
  "one_hot i n = (replicate n 0)[i := 1]"

definition pitch_class_in_f :: "config \<Rightarrow> nat \<Rightarrow> t4 \<Rightarrow> error + t4" where
  "pitch_class_in_f cfg time_steps x =
     (if OCTAVE cfg = 0 \<and> 0 < NUM_NOTES cfg then Inl ZeroDivisionError
      else
        let pitch_class_matrix =
              map (\<lambda>n. one_hot (n mod OCTAVE cfg) (OCTAVE cfg)) [0..<NUM_NOTES cfg]
        in case reshape4 1 1 (NUM_NOTES cfg) (OCTAVE cfg) (concat pitch_class_matrix) of
             Inl e \<Rightarrow> Inl e
           | Inr m \<Rightarrow> Inr (tile4 (length x) time_steps 1 1 m))"

text \<open>The slice \<^verbatim>\<open>x[:, :, i::OCTAVE, 0]\<close>.\<close>

definition played_slice :: "nat \<Rightarrow> nat \<Rightarrow> t4 \<Rightarrow> t3" where
  "played_slice i step x = map (map (\<lambda>notes. map (\<lambda>note. note ! 0) (strided i step notes))) x"

text \<open>
  In the graph \<open>x\<close> is the note input, of static shape (?, \<open>time_steps\<close>, \<open>NUM_NOTES\<close>, 2),
  so the slice that starts at \<open>i\<close> has the static shape
  (?, \<open>time_steps\<close>, \<open>slice_extent i OCTAVE NUM_NOTES\<close>).
\<close>

definition pitch_bins_f :: "config \<Rightarrow> nat \<Rightarrow> t4 \<Rightarrow> error + t4" where
  "pitch_bins_f cfg time_steps x =
     (case stack3 (map (\<lambda>i. ([time_steps, slice_extent i (OCTAVE cfg) (NUM_NOTES cfg)],
                              played_slice i (OCTAVE cfg) x)) [0..<OCTAVE cfg]) of
        Inl e \<Rightarrow> Inl e
      | Inr s \<Rightarrow>
          let bins = reduce_sum_axis3 s;
              bins = tile3 (NUM_OCTAVES cfg) 1 1 bins
          in reshape4 (length x) time_steps (NUM_NOTES cfg) 1 (flat3 bins))"

text \<open>
  The input of the run in which the pitch bins leave their places: one batch element, two
  time steps, 48 notes, and a single played note, the lowest one, at the second time step.
\<close>

definition bins_input :: t4 where
  "bins_input = [[replicate 48 [0, 0], [1, 0] # replicate 47 [0, 0]]]"

text \<open>
  The pitch-bin value as the specification words it: the sum of the played channel over
  all notes \<open>j\<close> of the pitch class of note \<open>i\<close>, at batch element \<open>b\<close> and time \<open>t\<close>.
\<close>

definition pitch_class_sum :: "config \<Rightarrow> t4 \<Rightarrow> nat \<Rightarrow> nat \<Rightarrow> nat \<Rightarrow> real" where
  "pitch_class_sum cfg x b t i =
     sum_list (map (\<lambda>j. x ! b ! t ! j ! 0)
       (filter (\<lambda>j. j mod OCTAVE cfg = i mod OCTAVE cfg) [0..<NUM_NOTES cfg]))"

section \<open>Layers\<close>

text \<open>
  The layers of Keras that \<^verbatim>\<open>build_model\<close> instantiates. A layer with learned weights
  takes them as an argument. \<open>Dense\<close> acts on the last axis: \<open>kernel\<close> has one row per
  input feature and one column per unit.
\<close>

type_synonym dense_w = "real list list \<times> real list"

definition linear_act :: "real \<Rightarrow> real" where
  "linear_act v = v"

definition sigmoid :: "real \<Rightarrow> real" where
  "sigmoid v = 1 / (1 + exp (- v))"

definition Dense :: "nat \<Rightarrow> dense_w \<Rightarrow> (real \<Rightarrow> real) \<Rightarrow> t1 \<Rightarrow> t1" where
  "Dense units w activation v =
     map (\<lambda>j. activation (sum_list (map (\<lambda>i. v ! i * fst w ! i ! j) [0..<length v]) + snd w ! j))
       [0..<units]"

definition Dense3 :: "nat \<Rightarrow> dense_w \<Rightarrow> (real \<Rightarrow> real) \<Rightarrow> t3 \<Rightarrow> t3" where
  "Dense3 units w activation x = map (map (Dense units w activation)) x"

definition Dense4 :: "nat \<Rightarrow> dense_w \<Rightarrow> (real \<Rightarrow> real) \<Rightarrow> t4 \<Rightarrow> t4" where
  "Dense4 units w activation x = map (map (map (Dense units w activation))) x"

definition Activation3 :: "(real \<Rightarrow> real) \<Rightarrow> t3 \<Rightarrow> t3" where
  "Activation3 f x = map (map (map f)) x"

definition Activation4 :: "(real \<Rightarrow> real) \<Rightarrow> t4 \<Rightarrow> t4" where
  "Activation4 f x = map (map (map (map f))) x"

text \<open>
  \<open>Dropout\<close>. The layer draws a mask of its input's shape; the mask is an argument, a
  function from the position to whether the unit is kept. Kept units are scaled by
  \<open>1 / (1 - rate)\<close>. The layer is the identity outside the training phase, and whenever
  \<open>0 < rate < 1\<close> fails.
\<close>

type_synonym noise = "nat list \<Rightarrow> bool"

definition imap :: "(nat \<Rightarrow> 'a \<Rightarrow> 'b) \<Rightarrow> 'a list \<Rightarrow> 'b list" where
  "imap f xs = map (\<lambda>i. f i (xs ! i)) [0..<length xs]"

definition drop_unit :: "real \<Rightarrow> bool \<Rightarrow> real \<Rightarrow> real" where
  "drop_unit rate keep v = (if keep then v / (1 - rate) else 0)"

definition dropped_inputs3 :: "real \<Rightarrow> noise \<Rightarrow> t3 \<Rightarrow> t3" where
  "dropped_inputs3 rate keep x =
     imap (\<lambda>a. imap (\<lambda>b. imap (\<lambda>c. drop_unit rate (keep [a, b, c])))) x"

definition dropped_inputs4 :: "real \<Rightarrow> noise \<Rightarrow> t4 \<Rightarrow> t4" where
  "dropped_inputs4 rate keep x =
     imap (\<lambda>a. imap (\<lambda>b. imap (\<lambda>c. imap (\<lambda>d. drop_unit rate (keep [a, b, c, d]))))) x"

definition Dropout3 :: "real \<Rightarrow> bool \<Rightarrow> noise \<Rightarrow> t3 \<Rightarrow> t3" where
  "Dropout3 rate training keep x =
     (if 0 < rate \<and> rate < 1 \<and> training then dropped_inputs3 rate keep x else x)"

definition Dropout4 :: "real \<Rightarrow> bool \<Rightarrow> noise \<Rightarrow> t4 \<Rightarrow> t4" where
  "Dropout4 rate training keep x =
     (if 0 < rate \<and> rate < 1 \<and> training then dropped_inputs4 rate keep x else x)"

text \<open>
  \<open>Conv1D\<close> with \<^verbatim>\<open>padding='same'\<close> over a sequence of feature vectors with \<open>channels\<close>
  entries each: the sequence is padded with \<open>(k - 1) div 2\<close> zero vectors in front and the
  rest of \<open>k - 1\<close> behind, and every output position is a dense map of the \<open>k\<close> vectors
  of its window; the kernel is given with its first two axes flattened. A window of size
  0 is rejected.
\<close>

definition Conv1D :: "nat \<Rightarrow> nat \<Rightarrow> nat \<Rightarrow> dense_w \<Rightarrow> t2 \<Rightarrow> error + t2" where
  "Conv1D filters kernel_size channels w xs =
     (if kernel_size = 0 then Inl ShapeMismatch
      else
        let pad_left = (kernel_size - 1) div 2;
            padded = replicate pad_left (replicate channels 0) @ xs
                     @ replicate (kernel_size - 1 - pad_left) (replicate channels 0)
        in Inr (map (\<lambda>n. Dense filters w linear_act (concat (take kernel_size (drop n padded))))
                 [0..<length xs]))"

text \<open>
  \<open>TimeDistributed\<close> applies a layer to every slice along axis 1; around \<open>Conv1D\<close> the
  slices are the time steps. The first slice that is rejected rejects the whole.
\<close>

fun sequence :: "(error + 'a) list \<Rightarrow> error + 'a list" where
  "sequence [] = Inr []"
| "sequence (r # rs) =
     (case r of
        Inl e \<Rightarrow> Inl e
      | Inr v \<Rightarrow> (case sequence rs of Inl e \<Rightarrow> Inl e | Inr vs \<Rightarrow> Inr (v # vs)))"

definition TimeDistributed_Conv1D :: "nat \<Rightarrow> nat \<Rightarrow> nat \<Rightarrow> dense_w \<Rightarrow> t4 \<Rightarrow> error + t4" where
  "TimeDistributed_Conv1D filters kernel_size channels w x =
     sequence (map (\<lambda>sample. sequence (map (Conv1D filters kernel_size channels w) sample)) x)"

text \<open>
  \<open>LSTM\<close> with \<^verbatim>\<open>return_sequences=True\<close>: the cell starts from the zero state of \<open>units\<close>
  entries, runs along the sequence and emits its hidden state at every step. The map of
  a cell from its state \<open>(h, c)\<close> and an input vector to the next state stands for the
  cell with its weights.
\<close>

type_synonym lstm_w = "t1 \<times> t1 \<Rightarrow> t1 \<Rightarrow> t1 \<times> t1"

fun lstm_run :: "lstm_w \<Rightarrow> t1 \<times> t1 \<Rightarrow> t2 \<Rightarrow> t2" where
  "lstm_run cell s [] = []"
| "lstm_run cell s (v # vs) = (let s' = cell s v in fst s' # lstm_run cell s' vs)"

definition LSTM :: "nat \<Rightarrow> lstm_w \<Rightarrow> t2 \<Rightarrow> t2" where
  "LSTM units cell xs = lstm_run cell (replicate units 0, replicate units 0) xs"

definition TimeDistributed_LSTM :: "nat \<Rightarrow> lstm_w \<Rightarrow> t4 \<Rightarrow> t4" where
  "TimeDistributed_LSTM units cell x = map (map (LSTM units cell)) x"

definition TimeDistributed_RepeatVector :: "nat \<Rightarrow> t3 \<Rightarrow> t4" where
  "TimeDistributed_RepeatVector n x = map (map (replicate n)) x"

text \<open>
  \<^verbatim>\<open>Permute((2, 1, 3))\<close> on a tensor of static shape (batch, \<open>d1\<close>, \<open>d2\<close>, features).
\<close>

definition Permute :: "nat \<Rightarrow> nat \<Rightarrow> t4 \<Rightarrow> t4" where
  "Permute d1 d2 x = map (\<lambda>sample. map (\<lambda>j. map (\<lambda>i. sample ! i ! j) [0..<d1]) [0..<d2]) x"

text \<open>
  \<open>Add\<close> and \<open>Concatenate\<close> along the last axis. In \<^verbatim>\<open>build_model\<close> their arguments
  agree on every axis they must agree on, by construction of the layers before them.
\<close>

definition Add :: "t4 \<Rightarrow> t4 \<Rightarrow> t4" where
  "Add x y = map2 (map2 (map2 (map2 (+)))) x y"

fun Concatenate :: "t4 list \<Rightarrow> t4" where
  "Concatenate [] = []"
| "Concatenate [x] = x"
| "Concatenate (x # xs) = map2 (map2 (map2 (@))) x (Concatenate xs)"

text \<open>
  \<open>Reshape((d1, d2, -1))\<close> on samples of \<open>input_size\<close> entries each: the missing extent is
  \<open>input_size div (d1 * d2)\<close> and must be exact.
\<close>

definition Reshape :: "nat \<Rightarrow> nat \<Rightarrow> nat \<Rightarrow> t4 \<Rightarrow> error + t4" where
  "Reshape input_size d1 d2 x =
     (if d1 * d2 = 0 \<or> input_size mod (d1 * d2) \<noteq> 0 then Inl ShapeMismatch
      else reshape4 (length x) d1 d2 (input_size div (d1 * d2)) (flat4 x))"

section \<open>The model\<close>

text \<open>
  The learned weights of the graph that \<^verbatim>\<open>build_model\<close> creates, layer by layer in the
  order of the source; the layers inside the two loops are indexed by the loop variable.
\<close>

record weights =
  style_w :: dense_w
  beat_w :: dense_w
  octave_w :: dense_w
  time_style_w :: "nat \<Rightarrow> dense_w"
  time_lstm_w :: "nat \<Rightarrow> lstm_w"
  note_style_w :: "nat \<Rightarrow> dense_w"
  note_lstm_w :: "nat \<Rightarrow> lstm_w"
  note_out_w :: dense_w

text \<open>
  The \<open>Dropout\<close> layers are numbered in the order of their creation; \<open>rng k\<close> is the mask
  that layer \<open>k\<close> draws in this evaluation. The embedding of the style and of the beat:
\<close>

definition style_embedding ::
  "config \<Rightarrow> weights \<Rightarrow> real \<Rightarrow> real \<Rightarrow> bool \<Rightarrow> (nat \<Rightarrow> noise) \<Rightarrow> t3 \<Rightarrow> t3" where
  "style_embedding cfg w input_dropout dropout training rng style_in =
     (let style = Dropout3 input_dropout training (rng 3) style_in;
          style = Dense3 (STYLE_UNITS cfg) (style_w w) linear_act style;
          style = Dropout3 dropout training (rng 4) style
      in style)"

definition beat_embedding ::
  "config \<Rightarrow> weights \<Rightarrow> real \<Rightarrow> real \<Rightarrow> bool \<Rightarrow> (nat \<Rightarrow> noise) \<Rightarrow> t3 \<Rightarrow> t3" where
  "beat_embedding cfg w input_dropout dropout training rng beat_in =
     (let beat = Dropout3 input_dropout training (rng 1) beat_in;
          beat = Dense3 (BEAT_UNITS cfg) (beat_w w) linear_act beat;
          beat = Activation3 tanh beat;
          beat = Dropout3 dropout training (rng 5) beat
      in beat)"

text \<open>The features of every single note; \<open>notes\<close> is the note input after its dropout.\<close>

definition note_features_f ::
  "config \<Rightarrow> weights \<Rightarrow> nat \<Rightarrow> real \<Rightarrow> bool \<Rightarrow> (nat \<Rightarrow> noise) \<Rightarrow> t4 \<Rightarrow> t3 \<Rightarrow> error + t4" where
  "note_features_f cfg w time_steps dropout training rng notes beat =
     (case TimeDistributed_Conv1D (OCTAVE_UNITS cfg) (2 * OCTAVE cfg) 2 (octave_w w) notes of
        Inl e \<Rightarrow> Inl e
      | Inr note_octave \<Rightarrow>
          let note_octave = Activation4 tanh note_octave;
              note_octave = Dropout4 dropout training (rng 6) note_octave
          in case pitch_pos_in_f cfg time_steps notes of
               Inl e \<Rightarrow> Inl e
             | Inr pitch_pos \<Rightarrow>
                 case pitch_class_in_f cfg time_steps notes of
                   Inl e \<Rightarrow> Inl e
                 | Inr pitch_class \<Rightarrow>
                     case pitch_bins_f cfg time_steps notes of
                       Inl e \<Rightarrow> Inl e
                     | Inr pitch_bins \<Rightarrow>
                         Inr (Concatenate
                               [pitch_pos, pitch_class, pitch_bins, note_octave,
                                TimeDistributed_RepeatVector (NUM_NOTES cfg) beat]))"

text \<open>
  One pass of each loop body. The loop state is \<open>x\<close> with its static feature width, which
  the source reads off as \<^verbatim>\<open>int(x.get_shape()[3])\<close>.
\<close>

definition time_axis_layer ::
  "config \<Rightarrow> weights \<Rightarrow> nat \<Rightarrow> real \<Rightarrow> bool \<Rightarrow> (nat \<Rightarrow> noise) \<Rightarrow> t3 \<Rightarrow> t4 \<times> nat \<Rightarrow> nat
     \<Rightarrow> t4 \<times> nat" where
  "time_axis_layer cfg w time_steps dropout training rng style xw l =
     (let style_proj = Dense3 (snd xw) (time_style_w w l) linear_act style;
          style_proj = Activation3 tanh style_proj;
          style_proj = Dropout3 dropout training (rng (7 + 2 * l)) style_proj;
          style_proj = TimeDistributed_RepeatVector (NUM_NOTES cfg) style_proj;
          style_proj = Permute time_steps (NUM_NOTES cfg) style_proj;
          x = Add (fst xw) style_proj;
          x = TimeDistributed_LSTM (TIME_AXIS_UNITS cfg) (time_lstm_w w l) x;
          x = Dropout4 dropout training (rng (8 + 2 * l)) x
      in (x, TIME_AXIS_UNITS cfg))"

definition note_axis_layer ::
  "config \<Rightarrow> weights \<Rightarrow> real \<Rightarrow> bool \<Rightarrow> (nat \<Rightarrow> noise) \<Rightarrow> t3 \<Rightarrow> t4 \<times> nat \<Rightarrow> nat
     \<Rightarrow> t4 \<times> nat" where
  "note_axis_layer cfg w dropout training rng style xw l =
     (let style_proj = Dense3 (snd xw) (note_style_w w l) linear_act style;
          style_proj = Activation3 tanh style_proj;
          style_proj = Dropout3 dropout training
                         (rng (7 + 2 * TIME_AXIS_LAYERS cfg + 2 * l)) style_proj;
          style_proj = TimeDistributed_RepeatVector (NUM_NOTES cfg) style_proj;
          x = Add (fst xw) style_proj;
          x = TimeDistributed_LSTM (NOTE_AXIS_UNITS cfg) (note_lstm_w w l) x;
          x = Dropout4 dropout training (rng (8 + 2 * TIME_AXIS_LAYERS cfg + 2 * l)) x
      in (x, NOTE_AXIS_UNITS cfg))"

text \<open>
  The shifted target: \<^verbatim>\<open>tf.pad(x[:, :, :-1, :], [[0, 0], [0, 0], [1, 0], [0, 0]])\<close> on the
  two channels of \<open>chosen\<close>, then \<^verbatim>\<open>Reshape((time_steps, NUM_NOTES, -1))\<close>.
\<close>

definition shift_pad :: "t4 \<Rightarrow> t4" where
  "shift_pad x = map (map (\<lambda>notes. replicate 2 0 # butlast notes)) x"

definition shift_chosen_f :: "config \<Rightarrow> nat \<Rightarrow> t4 \<Rightarrow> error + t4" where
  "shift_chosen_f cfg time_steps chosen =
     Reshape (time_steps * (NUM_NOTES cfg - 1 + 1) * 2) time_steps (NUM_NOTES cfg)
       (shift_pad chosen)"

text \<open>
  The forward pass of the graph of \<^verbatim>\<open>build_model(time_steps, input_dropout, dropout)\<close>
  on the four input tensors.
\<close>

definition forward ::
  "config \<Rightarrow> weights \<Rightarrow> nat \<Rightarrow> real \<Rightarrow> real \<Rightarrow> bool \<Rightarrow> (nat \<Rightarrow> noise)
     \<Rightarrow> t4 \<Rightarrow> t4 \<Rightarrow> t3 \<Rightarrow> t3 \<Rightarrow> error + t4" where
  "forward cfg w time_steps input_dropout dropout training rng notes_in chosen_in beat_in style_in =
     (let notes = Dropout4 input_dropout training (rng 0) notes_in;
          chosen = Dropout4 input_dropout training (rng 2) chosen_in;
          style = style_embedding cfg w input_dropout dropout training rng style_in;
          beat = beat_embedding cfg w input_dropout dropout training rng beat_in
      in case note_features_f cfg w time_steps dropout training rng notes beat of
           Inl e \<Rightarrow> Inl e
         | Inr note_features \<Rightarrow>
             let x = Permute time_steps (NUM_NOTES cfg) note_features;
                 xw = foldl (time_axis_layer cfg w time_steps dropout training rng style)
                        (x, 2 + OCTAVE cfg + OCTAVE_UNITS cfg + BEAT_UNITS cfg)
                        [0..<TIME_AXIS_LAYERS cfg];
                 x = Permute (NUM_NOTES cfg) time_steps (fst xw)
             in case shift_chosen_f cfg time_steps chosen of
                  Inl e \<Rightarrow> Inl e
                | Inr shift_chosen \<Rightarrow>
                    let x = Concatenate [x, shift_chosen];
                        xw = foldl (note_axis_layer cfg w dropout training rng style)
                               (x, snd xw + 2) [0..<NOTE_AXIS_LAYERS cfg];
                        notes_out = Dense4 2 (note_out_w w) sigmoid (fst xw)
                    in Inr notes_out)"

text \<open>
  \<^verbatim>\<open>Model([notes_in, chosen_in, beat_in, style_in], [notes_out])\<close>: the model is called
  with a list of arrays, bound to the inputs by position. An array whose rank or whose
  shape behind the batch axis is not that of its input is rejected, and so are arrays
  with different numbers of samples.
\<close>

datatype array = Rank3 t3 | Rank4 t4

definition model_call ::
  "config \<Rightarrow> weights \<Rightarrow> nat \<Rightarrow> real \<Rightarrow> real \<Rightarrow> bool \<Rightarrow> (nat \<Rightarrow> noise)
     \<Rightarrow> array list \<Rightarrow> error + t4" where
  "model_call cfg w time_steps input_dropout dropout training rng inputs =
     (case inputs of
        [Rank4 notes_in, Rank4 chosen_in, Rank3 beat_in, Rank3 style_in] \<Rightarrow>
          if list_all (shape3 time_steps (NUM_NOTES cfg) 2) notes_in
             \<and> list_all (shape3 time_steps (NUM_NOTES cfg) 2) chosen_in
             \<and> list_all (shape2 time_steps 2) beat_in
             \<and> list_all (shape2 time_steps (NUM_STYLES cfg)) style_in
             \<and> length chosen_in = length notes_in
             \<and> length beat_in = length notes_in
             \<and> length style_in = length notes_in
          then forward cfg w time_steps input_dropout dropout training rng
                 notes_in chosen_in beat_in style_in
          else Inl ShapeMismatch
      | _ \<Rightarrow> Inl ShapeMismatch)"

section \<open>Example inputs\<close>

text \<open>
  A target tensor for the end-to-end scenario: two samples of 16 time steps; note \<open>n\<close>
  carries \<open>n\<close> in its first channel and 1 in its second.
\<close>

definition chosen_example :: t4 where
  "chosen_example = replicate 2 (replicate 16 (map (\<lambda>n. [real n, 1]) [0..<48]))"

text \<open>
  Inputs and weights for the end-to-end scenario: two samples of 16 time steps, every C
  played; all kernels and biases zero, and cells that stay in the zero state.
\<close>

definition notes_example :: t4 where
  "notes_example =
     replicate 2 (replicate 16 (map (\<lambda>n. [if n mod 12 = 0 then 1 else 0, 0]) [0..<48]))"

definition beat_example :: t3 where
  "beat_example = replicate 2 (replicate 16 [0, 1])"

definition style_example :: t3 where
  "style_example = replicate 2 (replicate 16 [1, 0, 0, 0])"

definition zeros_w :: "nat \<Rightarrow> nat \<Rightarrow> dense_w" where
  "zeros_w rows cols = (replicate rows (replicate cols 0), replicate cols 0)"

definition example_weights :: weights where
  "example_weights =
     \<lparr>style_w = zeros_w 4 3, beat_w = zeros_w 2 2, octave_w = zeros_w 48 2,
      time_style_w = (\<lambda>l. zeros_w 3 (if l = 0 then 18 else 3)),
      time_lstm_w = (\<lambda>l s v. (replicate 3 0, replicate 3 0)),
      note_style_w = (\<lambda>l. zeros_w 3 (if l = 0 then 5 else 2)),
      note_lstm_w = (\<lambda>l s v. (replicate 2 0, replicate 2 0)),
      note_out_w = zeros_w 2 2\<rparr>"

text \<open>A configuration whose 50 notes are not a whole number of octaves, and notes for it.\<close>

definition short_config :: config where
  "short_config = example_config\<lparr>NUM_NOTES := 50\<rparr>"

definition notes_short :: t4 where
  "notes_short = replicate 2 (replicate 16 (replicate 50 [0, 0]))"

text \<open>
  Weights that differ from \<open>example_weights\<close> in the two embeddings, whose kernels copy
  the first inputs to the units; and the masks that keep every unit.
\<close>

definition probe_weights :: weights where
  "probe_weights =
     example_weights\<lparr>style_w := ([[1, 0, 0], [0, 1, 0], [0, 0, 1], [0, 0, 0]], [0, 0, 0]),
                     beat_w := ([[1, 0], [0, 1]], [0, 0])\<rparr>"


definition keep_all :: "nat \<Rightarrow> noise" where
  "keep_all k position = True"

text \<open>
  The embedding as the specification words it: a learned linear layer followed by a
  nonlinearity.
\<close>

definition embedding_spec :: "(real \<Rightarrow> real) \<Rightarrow> nat \<Rightarrow> dense_w \<Rightarrow> t3 \<Rightarrow> t3" where
  "embedding_spec nonlinearity units w x = Activation3 nonlinearity (Dense3 units w linear_act x)"

section \<open>Losses and the compiled objective\<close>

text \<open>
  The backend's element-wise binary cross-entropy of a probability: the prediction is
  clipped to \<open>[epsilon, 1 - epsilon]\<close>. \<^verbatim>\<open>losses.binary_crossentropy\<close> averages it over
  the last axis; \<^verbatim>\<open>losses.categorical_crossentropy\<close> normalises the prediction along the
  last axis, clips it and sums \<open>- target * ln prediction\<close> over that axis.
\<close>

definition epsilon :: real where
  "epsilon = 1 / 10 ^ 7"

definition clip :: "real \<Rightarrow> real \<Rightarrow> real \<Rightarrow> real" where
  "clip v lo hi = min (max v lo) hi"

definition K_binary_crossentropy :: "real \<Rightarrow> real \<Rightarrow> real" where
  "K_binary_crossentropy target output =
     (let p = clip output epsilon (1 - epsilon)
      in - (target * ln p + (1 - target) * ln (1 - p)))"

definition mean :: "real list \<Rightarrow> real" where
  "mean v = sum_list v / real (length v)"

definition binary_crossentropy :: "t4 \<Rightarrow> t4 \<Rightarrow> t3" where
  "binary_crossentropy y_true y_pred =
     map2 (map2 (map2 (\<lambda>t p. mean (map2 K_binary_crossentropy t p)))) y_true y_pred"

definition categorical_crossentropy :: "t3 \<Rightarrow> t3 \<Rightarrow> t2" where
  "categorical_crossentropy y_true y_pred =
     map2 (map2 (\<lambda>t p.
        - sum_list (map2 (\<lambda>ti pi. ti * ln (clip (pi / sum_list p) epsilon (1 - epsilon))) t p)))
       y_true y_pred"

definition primary_loss :: "t4 \<Rightarrow> t4 \<Rightarrow> t3" where
  "primary_loss y_true y_pred = binary_crossentropy y_true y_pred"

definition style_loss :: "t3 \<Rightarrow> t3 \<Rightarrow> t2" where
  "style_loss y_true y_pred = map (map (\<lambda>v. 0.5 * v)) (categorical_crossentropy y_true y_pred)"

text \<open>
  \<^verbatim>\<open>model.compile(optimizer='nadam', loss=[primary_loss])\<close>: one loss function per
  output of the model, in the order of the outputs. The objective that training
  minimises is the sum over the outputs of the mean of the output's loss.
\<close>

record training_config =
  optimizer :: string
  loss :: "(t4 \<Rightarrow> t4 \<Rightarrow> t3) list"

definition compile_config :: training_config where
  "compile_config = \<lparr>optimizer = ''nadam'', loss = [primary_loss]\<rparr>"

definition total_loss :: "training_config \<Rightarrow> t4 list \<Rightarrow> t4 list \<Rightarrow> real" where
  "total_loss c y_true y_pred =
     sum_list (map (\<lambda>(l, t, p). mean (flat3 (l t p))) (zip (loss c) (zip y_true y_pred)))"

text \<open>
  The pitch-class feature as the specification words it: for note index \<open>i\<close> the one-hot
  vector of length \<open>OCTAVE\<close> over \<open>i mod OCTAVE\<close>, the same for every batch element and time
  step.
\<close>

definition pitch_class_spec :: "config \<Rightarrow> nat \<Rightarrow> nat \<Rightarrow> t4" where
  "pitch_class_spec cfg B T =
     replicate B (replicate T
       (map (\<lambda>i. one_hot (i mod OCTAVE cfg) (OCTAVE cfg)) [0..<NUM_NOTES cfg]))"

section \<open>Weights that echo the shifted target\<close>






section \<open>Facts about the tensor engine\<close>

lemma length_concat_rect:
  "list_all (\<lambda>r. length r = n) xss \<Longrightarrow> length (concat xss) = length xss * n"
  by (induction xss) auto

lemma nth_concat_rect:
  "list_all (\<lambda>r. length r = n) xss \<Longrightarrow> i < length xss \<Longrightarrow> j < n \<Longrightarrow>
   concat xss ! (i * n + j) = xss ! i ! j"
proof (induction xss arbitrary: i)
  case Nil
  then show ?case by simp
next
  case (Cons r xss)
  show ?case
  proof (cases i)
    case 0
    with Cons.prems show ?thesis by (simp add: nth_append)
  next
    case (Suc k)
    with Cons.prems have "concat xss ! (k * n + j) = xss ! k ! j"
      by (intro Cons.IH) auto
    with Suc Cons.prems show ?thesis by (simp add: nth_append add.assoc)
  qed
qed

lemma reshape4_shape:
  "reshape4 d0 d1 d2 d3 buf = Inr y \<Longrightarrow> shape4 d0 d1 d2 d3 y"
  by (auto simp: reshape4_def shape4_def shape3_def shape2_def list_all_iff split: if_splits)

lemma reshape4_nth:
  "reshape4 d0 d1 d2 d3 buf = Inr y \<Longrightarrow> a < d0 \<Longrightarrow> b < d1 \<Longrightarrow> c < d2 \<Longrightarrow> d < d3 \<Longrightarrow>
   y ! a ! b ! c ! d = buf ! (((a * d1 + b) * d2 + c) * d3 + d)"
  by (auto simp: reshape4_def split: if_splits)

lemma reshape4_ok:
  "length buf = d0 * d1 * d2 * d3 \<Longrightarrow> \<exists>y. reshape4 d0 d1 d2 d3 buf = Inr y"
  by (simp add: reshape4_def)

lemma index_bound2: "(a::nat) < d0 \<Longrightarrow> b < d1 \<Longrightarrow> a * d1 + b < d0 * d1"
proof -
  assume a: "a < d0" and b: "b < d1"
  have "a * d1 + b < a * d1 + d1" using b by simp
  also have "\<dots> = Suc a * d1" by simp
  also have "\<dots> \<le> d0 * d1" using a by (intro mult_le_mono1) simp
  finally show ?thesis .
qed

lemma tile1_nth:
  "k < m \<Longrightarrow> j < length xs \<Longrightarrow> tile1 m xs ! (k * length xs + j) = xs ! j"
  using nth_concat_rect[of "length xs" "replicate m xs" k j]
  by (simp add: tile1_def list_all_iff)

lemma length_tile1: "length (tile1 m xs) = m * length xs"
  using length_concat_rect[of "length xs" "replicate m xs"]
  by (simp add: tile1_def list_all_iff)

lemma shape2_nth: "shape2 d0 d1 x \<Longrightarrow> i < d0 \<Longrightarrow> length (x ! i) = d1"
  by (simp add: shape2_def list_all_length)

lemma shape3_nth: "shape3 d0 d1 d2 x \<Longrightarrow> i < d0 \<Longrightarrow> shape2 d1 d2 (x ! i)"
  by (simp add: shape3_def list_all_length)

lemma shape4_nth: "shape4 d0 d1 d2 d3 x \<Longrightarrow> i < d0 \<Longrightarrow> shape3 d1 d2 d3 (x ! i)"
  by (simp add: shape4_def list_all_length)


lemma shape3_length: "shape3 d0 d1 d2 x \<Longrightarrow> length x = d0"
  by (simp add: shape3_def)

lemma shape4_length: "shape4 d0 d1 d2 d3 x \<Longrightarrow> length x = d0"
  by (simp add: shape4_def)

lemma shape2I:
  "length x = d0 \<Longrightarrow> (\<And>i. i < d0 \<Longrightarrow> length (x ! i) = d1) \<Longrightarrow> shape2 d0 d1 x"
  by (simp add: shape2_def list_all_length)

lemma shape3I:
  "length x = d0 \<Longrightarrow> (\<And>i. i < d0 \<Longrightarrow> shape2 d1 d2 (x ! i)) \<Longrightarrow> shape3 d0 d1 d2 x"
  by (simp add: shape3_def list_all_length)

lemma shape4I:
  "length x = d0 \<Longrightarrow> (\<And>i. i < d0 \<Longrightarrow> shape3 d1 d2 d3 (x ! i)) \<Longrightarrow> shape4 d0 d1 d2 d3 x"
  by (simp add: shape4_def list_all_length)

lemma shape2_eqI:
  assumes "shape2 d0 d1 x" "shape2 d0 d1 y"
    and "\<And>i j. i < d0 \<Longrightarrow> j < d1 \<Longrightarrow> x ! i ! j = y ! i ! j"
  shows "x = y"
proof (rule nth_equalityI)
  show "length x = length y" using assms(1,2) by (simp add: shape2_def)
next
  fix i assume "i < length x"
  then have i: "i < d0" using assms(1) by (simp add: shape2_def)
  show "x ! i = y ! i"
    using assms i by (intro nth_equalityI) (simp_all add: shape2_nth)
qed

lemma shape3_eqI:
  assumes "shape3 d0 d1 d2 x" "shape3 d0 d1 d2 y"
    and "\<And>i j k. i < d0 \<Longrightarrow> j < d1 \<Longrightarrow> k < d2 \<Longrightarrow> x ! i ! j ! k = y ! i ! j ! k"
  shows "x = y"
proof (rule nth_equalityI)
  show "length x = length y" using assms(1,2) by (simp add: shape3_def)
next
  fix i assume "i < length x"
  then have i: "i < d0" using assms(1) by (simp add: shape3_def)
  show "x ! i = y ! i"
    using shape3_nth[OF assms(1) i] shape3_nth[OF assms(2) i] assms(3)[OF i]
    by (rule shape2_eqI)
qed

lemma shape4_eqI:
  assumes "shape4 d0 d1 d2 d3 x" "shape4 d0 d1 d2 d3 y"
    and "\<And>i j k l. i < d0 \<Longrightarrow> j < d1 \<Longrightarrow> k < d2 \<Longrightarrow> l < d3 \<Longrightarrow> x ! i ! j ! k ! l = y ! i ! j ! k ! l"
  shows "x = y"
proof (rule nth_equalityI)
  show "length x = length y" using assms(1,2) by (simp add: shape4_def)
next
  fix i assume "i < length x"
  then have i: "i < d0" using assms(1) by (simp add: shape4_def)
  show "x ! i = y ! i"
    using shape4_nth[OF assms(1) i] shape4_nth[OF assms(2) i] assms(3)[OF i]
    by (rule shape3_eqI)
qed

lemma length_flat3: "shape3 d0 d1 d2 x \<Longrightarrow> length (flat3 x) = d0 * (d1 * d2)"
proof -
  assume sh: "shape3 d0 d1 d2 x"
  have "list_all (\<lambda>r. length r = d1 * d2) (map concat x)"
    using sh by (auto simp: shape3_def shape2_def list_all_iff length_concat_rect)
  then have "length (concat (map concat x)) = length (map concat x) * (d1 * d2)"
    by (rule length_concat_rect)
  then show ?thesis using sh by (simp add: flat3_def shape3_def)
qed

lemma nth_flat3:
  assumes sh: "shape3 d0 d1 d2 x" and i: "i < d0" and j: "j < d1" and k: "k < d2"
  shows "flat3 x ! ((i * d1 + j) * d2 + k) = x ! i ! j ! k"
proof -
  have rows: "list_all (\<lambda>r. length r = d1 * d2) (map concat x)"
    using sh by (auto simp: shape3_def shape2_def list_all_iff length_concat_rect)
  have xi: "shape2 d1 d2 (x ! i)" using sh i by (rule shape3_nth)
  have jk: "j * d2 + k < d1 * d2" using j k by (rule index_bound2)
  have "(i * d1 + j) * d2 + k = i * (d1 * d2) + (j * d2 + k)"
    by (simp add: algebra_simps)
  then have "flat3 x ! ((i * d1 + j) * d2 + k) = concat (map concat x) ! (i * (d1 * d2) + (j * d2 + k))"
    unfolding flat3_def by (rule arg_cong)
  also have "\<dots> = map concat x ! i ! (j * d2 + k)"
    using rows i jk sh by (intro nth_concat_rect) (simp_all add: shape3_def)
  also have "\<dots> = concat (x ! i) ! (j * d2 + k)"
    using i sh by (simp add: shape3_def)
  also have "\<dots> = x ! i ! j ! k"
    using xi j k by (intro nth_concat_rect) (simp_all add: shape2_def)
  finally show ?thesis .
qed

lemma length_flat4: "shape4 d0 d1 d2 d3 x \<Longrightarrow> length (flat4 x) = d0 * d1 * d2 * d3"
proof -
  assume sh: "shape4 d0 d1 d2 d3 x"
  have "list_all (\<lambda>r. length r = d1 * (d2 * d3)) (map flat3 x)"
    using sh by (auto simp: shape4_def list_all_iff length_flat3)
  then have "length (concat (map flat3 x)) = length (map flat3 x) * (d1 * (d2 * d3))"
    by (rule length_concat_rect)
  then show ?thesis using sh by (simp add: flat4_def shape4_def)
qed

lemma index_bound3:
  "(a::nat) < d0 \<Longrightarrow> b < d1 \<Longrightarrow> c < d2 \<Longrightarrow> (a * d1 + b) * d2 + c < d0 * d1 * d2"
  using index_bound2[of "a * d1 + b" "d0 * d1" c d2] index_bound2[of a d0 b d1] by simp

lemma nth_flat4:
  assumes sh: "shape4 d0 d1 d2 d3 x" and i: "i < d0" and j: "j < d1" and k: "k < d2" and l: "l < d3"
  shows "flat4 x ! (((i * d1 + j) * d2 + k) * d3 + l) = x ! i ! j ! k ! l"
proof -
  have rows: "list_all (\<lambda>r. length r = d1 * d2 * d3) (map flat3 x)"
    using sh by (auto simp: shape4_def list_all_iff length_flat3)
  have xi: "shape3 d1 d2 d3 (x ! i)" using sh i by (rule shape4_nth)
  have jkl: "(j * d2 + k) * d3 + l < d1 * d2 * d3" using j k l by (rule index_bound3)
  have "((i * d1 + j) * d2 + k) * d3 + l = i * (d1 * d2 * d3) + ((j * d2 + k) * d3 + l)"
    by (simp add: algebra_simps)
  then have "flat4 x ! (((i * d1 + j) * d2 + k) * d3 + l)
             = concat (map flat3 x) ! (i * (d1 * d2 * d3) + ((j * d2 + k) * d3 + l))"
    unfolding flat4_def by (rule arg_cong)
  also have "\<dots> = map flat3 x ! i ! ((j * d2 + k) * d3 + l)"
    using rows i jkl sh by (intro nth_concat_rect) (simp_all add: shape4_def)
  also have "\<dots> = flat3 (x ! i) ! ((j * d2 + k) * d3 + l)"
    using i sh by (simp add: shape4_def)
  also have "\<dots> = x ! i ! j ! k ! l"
    using xi j k l by (rule nth_flat3)
  finally show ?thesis .
qed

lemma reshape4_flat4:
  assumes sh: "shape4 d0 d1 d2 d3 x"
  shows "reshape4 d0 d1 d2 d3 (flat4 x) = Inr x"
proof -
  obtain y where y: "reshape4 d0 d1 d2 d3 (flat4 x) = Inr y"
    using reshape4_ok[OF length_flat4[OF sh]] by blast
  have "y = x"
  proof (rule shape4_eqI)
    show "shape4 d0 d1 d2 d3 y" using y by (rule reshape4_shape)
    show "shape4 d0 d1 d2 d3 x" by (rule sh)
  next
    fix i j k l assume b: "i < d0" "j < d1" "k < d2" "l < d3"
    then show "y ! i ! j ! k ! l = x ! i ! j ! k ! l"
      using reshape4_nth[OF y b] nth_flat4[OF sh b] by simp
  qed
  with y show ?thesis by simp
qed

section \<open>Pitch position\<close>

text \<open>
  Claim C6. For every input \<open>x\<close> with batch size \<open>length x\<close>, \<open>pitch_pos_in_f\<close> returns a
  tensor of shape (B, T, NUM_NOTES, 1) whose entry at note index \<open>i\<close> is \<open>i / NUM_NOTES\<close>,
  the same for every batch element and every time step.
\<close>

theorem pitch_pos_in_f_value:
  "\<exists>y. pitch_pos_in_f cfg time_steps x = Inr y
     \<and> shape4 (length x) time_steps (NUM_NOTES cfg) 1 y
     \<and> (\<forall>b<length x. \<forall>t<time_steps. \<forall>i<NUM_NOTES cfg.
           y ! b ! t ! i = [real i / real (NUM_NOTES cfg)])"
proof -
  define N where "N = NUM_NOTES cfg"
  define B where "B = length x"
  define r where "r = map (\<lambda>i. real i / real N) [0..<N]"
  have lr: "length r = N" by (simp add: r_def)
  have len: "length (tile1 (B * time_steps) r) = B * time_steps * N * 1"
    by (simp add: length_tile1 lr)
  then obtain y where y: "reshape4 B time_steps N 1 (tile1 (B * time_steps) r) = Inr y"
    using reshape4_ok by blast
  have py: "pitch_pos_in_f cfg time_steps x = Inr y"
    using y by (simp add: pitch_pos_in_f_def Let_def N_def B_def r_def)
  have sh: "shape4 B time_steps N 1 y" using y by (rule reshape4_shape)
  have val: "y ! b ! t ! i = [real i / real N]"
    if b: "b < B" and t: "t < time_steps" and i: "i < N" for b t i
  proof -
    have bt: "b * time_steps + t < B * time_steps" using b t by (rule index_bound2)
    have l1: "length (y ! b ! t ! i) = 1"
      using sh b t i by (auto simp: shape4_def shape3_def shape2_def list_all_length)
    have "y ! b ! t ! i ! 0 = tile1 (B * time_steps) r ! (((b * time_steps + t) * N + i) * 1 + 0)"
      using y b t i by (intro reshape4_nth) auto
    also have "\<dots> = r ! i"
      using tile1_nth[of "b * time_steps + t" "B * time_steps" i r] bt i lr by simp
    also have "\<dots> = real i / real N" using i by (simp add: r_def)
    finally have "y ! b ! t ! i ! 0 = real i / real N" .
    with l1 show ?thesis by (cases "y ! b ! t ! i") auto
  qed
  show ?thesis using py sh val unfolding N_def B_def by blast
qed

theorem pitch_pos_in_f_value_witness:
  "\<exists>y. pitch_pos_in_f example_config 2 [[], [], []] = Inr y
     \<and> shape4 3 2 48 1 y \<and> y ! 2 ! 1 ! 12 = [1 / 4]"
proof -
  from pitch_pos_in_f_value [of example_config 2 "[[], [], []]"]
  obtain y where y: "pitch_pos_in_f example_config 2 [[], [], []] = Inr y"
    and sh: "shape4 3 2 (NUM_NOTES example_config) 1 y"
    and v: "\<forall>b<3. \<forall>t<2. \<forall>i<NUM_NOTES example_config.
              y ! b ! t ! i = [real i / real (NUM_NOTES example_config)]"
    by (auto simp: numeral_3_eq_3)
  have "y ! 2 ! 1 ! 12 = [1 / 4]" using v by (simp add: example_config_def)
  with y sh show ?thesis by (auto simp: example_config_def)
qed

section \<open>Pitch class\<close>

lemma tile1_one: "tile1 (Suc 0) xs = xs"
  by (simp add: tile1_def)

lemma tile1_single: "tile1 m [a] = replicate m a"
  by (induction m) (simp_all add: tile1_def)

lemma map_tile1_one: "map (tile1 (Suc 0)) xs = xs"
  by (simp add: tile1_one map_idI)

lemma length_one_hot: "length (one_hot i n) = n"
  by (simp add: one_hot_def)

lemma one_hot_nth: "c < n \<Longrightarrow> one_hot i n ! c = (if c = i then 1 else 0)"
  by (simp add: one_hot_def nth_list_update)

lemma reshape4_matrix:
  assumes "list_all (\<lambda>r. length r = d3) m"
  shows "reshape4 1 1 (length m) d3 (concat m) = Inr [[m]]"
proof -
  have len: "length (concat m) = length m * d3"
    using assms by (rule length_concat_rect)
  have "map (\<lambda>c. map (\<lambda>d. concat m ! (c * d3 + d)) [0..<d3]) [0..<length m] = m"
  proof (rule nth_equalityI)
    show "length (map (\<lambda>c. map (\<lambda>d. concat m ! (c * d3 + d)) [0..<d3]) [0..<length m]) = length m"
      by simp
  next
    fix i assume "i < length (map (\<lambda>c. map (\<lambda>d. concat m ! (c * d3 + d)) [0..<d3]) [0..<length m])"
    then have i: "i < length m" by simp
    have li: "length (m ! i) = d3" using assms i by (simp add: list_all_length)
    have "map (\<lambda>d. concat m ! (i * d3 + d)) [0..<d3] = m ! i"
      using li i assms by (intro nth_equalityI) (simp_all add: nth_concat_rect)
    then show "map (\<lambda>c. map (\<lambda>d. concat m ! (c * d3 + d)) [0..<d3]) [0..<length m] ! i = m ! i"
      using i by simp
  qed
  then show ?thesis using len by (simp add: reshape4_def)
qed

lemma tile4_batch_time: "tile4 b t (Suc 0) (Suc 0) [[m]] = replicate b (replicate t m)"
  by (simp add: tile4_def tile1_single tile1_one map_tile1_one)

lemma pitch_class_in_f_eq:
  assumes "0 < OCTAVE cfg"
  shows "pitch_class_in_f cfg time_steps x =
         Inr (replicate (length x) (replicate time_steps
               (map (\<lambda>n. one_hot (n mod OCTAVE cfg) (OCTAVE cfg)) [0..<NUM_NOTES cfg])))"
proof -
  define m where "m = map (\<lambda>n. one_hot (n mod OCTAVE cfg) (OCTAVE cfg)) [0..<NUM_NOTES cfg]"
  have "list_all (\<lambda>r. length r = OCTAVE cfg) m"
    by (simp add: m_def list_all_iff length_one_hot)
  then have "reshape4 1 1 (length m) (OCTAVE cfg) (concat m) = Inr [[m]]"
    by (rule reshape4_matrix)
  moreover have "length m = NUM_NOTES cfg" by (simp add: m_def)
  ultimately have "reshape4 1 1 (NUM_NOTES cfg) (OCTAVE cfg) (concat m) = Inr [[m]]" by simp
  then show ?thesis
    using assms by (simp add: pitch_class_in_f_def Let_def m_def [symmetric] tile4_batch_time)
qed

text \<open>
  Claim C5. With a positive \<open>OCTAVE\<close>, the pitch-class feature has shape
  (B, T, NUM_NOTES, OCTAVE); at every batch element and time step its row for note \<open>i\<close> is
  the one-hot vector with the one at \<open>i mod OCTAVE\<close>, and the rows of the notes \<open>i\<close> and
  \<open>i + OCTAVE\<close> are equal.
\<close>

theorem pitch_class_in_f_one_hot:
  assumes "0 < OCTAVE cfg"
  shows "\<exists>y. pitch_class_in_f cfg time_steps x = Inr y
     \<and> shape4 (length x) time_steps (NUM_NOTES cfg) (OCTAVE cfg) y
     \<and> (\<forall>b<length x. \<forall>t<time_steps. \<forall>i<NUM_NOTES cfg.
           (\<forall>c<OCTAVE cfg. y ! b ! t ! i ! c = (if c = i mod OCTAVE cfg then 1 else 0))
         \<and> (i + OCTAVE cfg < NUM_NOTES cfg \<longrightarrow> y ! b ! t ! i = y ! b ! t ! (i + OCTAVE cfg)))"
proof -
  define y where "y = replicate (length x) (replicate time_steps
               (map (\<lambda>n. one_hot (n mod OCTAVE cfg) (OCTAVE cfg)) [0..<NUM_NOTES cfg]))"
  have eq: "pitch_class_in_f cfg time_steps x = Inr y"
    unfolding y_def using assms by (rule pitch_class_in_f_eq)
  have sh: "shape4 (length x) time_steps (NUM_NOTES cfg) (OCTAVE cfg) y"
    by (simp add: y_def shape4_def shape3_def shape2_def list_all_iff length_one_hot)
  have row: "y ! b ! t ! i = one_hot (i mod OCTAVE cfg) (OCTAVE cfg)"
    if "b < length x" "t < time_steps" "i < NUM_NOTES cfg" for b t i
    using that by (simp add: y_def)
  have "(\<forall>c<OCTAVE cfg. y ! b ! t ! i ! c = (if c = i mod OCTAVE cfg then 1 else 0))
         \<and> (i + OCTAVE cfg < NUM_NOTES cfg \<longrightarrow> y ! b ! t ! i = y ! b ! t ! (i + OCTAVE cfg))"
    if b: "b < length x" and t: "t < time_steps" and i: "i < NUM_NOTES cfg" for b t i
  proof (intro conjI allI impI)
    fix c assume "c < OCTAVE cfg"
    then show "y ! b ! t ! i ! c = (if c = i mod OCTAVE cfg then 1 else 0)"
      using row[OF b t i] by (simp add: one_hot_nth)
  next
    assume "i + OCTAVE cfg < NUM_NOTES cfg"
    then show "y ! b ! t ! i = y ! b ! t ! (i + OCTAVE cfg)"
      using row[OF b t i] row[OF b t, of "i + OCTAVE cfg"] by simp
  qed
  with eq sh show ?thesis by blast
qed

theorem pitch_class_in_f_one_hot_witness:
  "\<exists>y. pitch_class_in_f example_config 2 [[]] = Inr y
     \<and> shape4 1 2 48 12 y
     \<and> y ! 0 ! 1 ! 14 ! 2 = 1 \<and> y ! 0 ! 1 ! 14 ! 3 = 0 \<and> y ! 0 ! 1 ! 14 = y ! 0 ! 1 ! 26"
proof -
  have oct: "0 < OCTAVE example_config" by (simp add: example_config_def)
  from pitch_class_in_f_one_hot [OF oct, of 2 "[[]]"]
  obtain y where y: "pitch_class_in_f example_config 2 [[]] = Inr y"
    and sh: "shape4 1 2 48 12 y"
    and v: "\<forall>b<1. \<forall>t<2. \<forall>i<48.
           (\<forall>c<12. y ! b ! t ! i ! c = (if c = i mod 12 then 1 else 0))
         \<and> (i + 12 < 48 \<longrightarrow> y ! b ! t ! i = y ! b ! t ! (i + 12))"
    by (auto simp: example_config_def)
  have "y ! 0 ! 1 ! 14 ! 2 = 1" "y ! 0 ! 1 ! 14 ! 3 = 0" "y ! 0 ! 1 ! 14 = y ! 0 ! 1 ! 26"
    using v by simp_all
  with y sh show ?thesis by blast
qed

section \<open>Pitch bins\<close>

text \<open>
  Claim C1. At \<open>bins_input\<close> the only played note is note 0 at time step 1, so the sum over
  the pitch class of note 1 at time step 0 is 0 and the sum over the pitch class of note 0
  at time step 1 is 1. The feature that \<open>pitch_bins_f\<close> returns holds 1 at the notes 1
  and 25 of both time steps and 0 everywhere else: the buffer is laid out by (note, batch,
  time) when it is read back as (batch, time, note).
\<close>

theorem pitch_bins_f_misplaced:
  "pitch_bins_f example_config 2 bins_input =
     Inr [replicate 2 (map (\<lambda>n. [if n mod 24 = 1 then 1 else 0]) [0..<48])]
   \<and> pitch_class_sum example_config bins_input 0 0 1 = 0
   \<and> pitch_class_sum example_config bins_input 0 1 0 = 1"
  by code_simp

section \<open>The shifted target\<close>

lemma Dropout3_off: "Dropout3 0 training keep x = x"
  by (simp add: Dropout3_def)

lemma Dropout4_off: "Dropout4 0 training keep x = x"
  by (simp add: Dropout4_def)

lemma shift_pad_shape:
  assumes sh: "shape4 B T N 2 x" and N: "0 < N"
  shows "shape4 B T N 2 (shift_pad x)"
proof (rule shape4I)
  show "length (shift_pad x) = B" using sh by (simp add: shift_pad_def shape4_def)
next
  fix b assume b: "b < B"
  have xb: "shape3 T N 2 (x ! b)" using sh b by (rule shape4_nth)
  show "shape3 T N 2 (shift_pad x ! b)"
  proof (rule shape3I)
    show "length (shift_pad x ! b) = T"
      using sh b xb by (simp add: shift_pad_def shape4_def shape3_def)
  next
    fix t assume t: "t < T"
    have xbt: "shape2 N 2 (x ! b ! t)" using xb t by (rule shape3_nth)
    have eq: "shift_pad x ! b ! t = replicate 2 0 # butlast (x ! b ! t)"
      using sh b xb t by (simp add: shift_pad_def shape4_def shape3_def)
    show "shape2 N 2 (shift_pad x ! b ! t)"
    proof (rule shape2I)
      show "length (shift_pad x ! b ! t) = N" using eq xbt N by (simp add: shape2_def)
    next
      fix i assume i: "i < N"
      show "length (shift_pad x ! b ! t ! i) = 2"
      proof (cases i)
        case 0
        then show ?thesis using eq by simp
      next
        case (Suc k)
        then have "shift_pad x ! b ! t ! i = x ! b ! t ! k"
          using eq xbt i by (simp add: nth_butlast shape2_def)
        moreover have "length (x ! b ! t ! k) = 2"
          using xbt Suc i by (intro shape2_nth[of N]) simp_all
        ultimately show ?thesis by simp
      qed
    qed
  qed
qed

lemma shift_pad_first:
  assumes sh: "shape4 B T N 2 x" and b: "b < B" and t: "t < T"
  shows "shift_pad x ! b ! t ! 0 = [0, 0]"
proof -
  have xb: "shape3 T N 2 (x ! b)" using sh b by (rule shape4_nth)
  have "shift_pad x ! b ! t = replicate 2 0 # butlast (x ! b ! t)"
    using sh b xb t by (simp add: shift_pad_def shape4_def shape3_def)
  then show ?thesis by (simp add: numeral_2_eq_2)
qed

lemma shift_pad_next:
  assumes sh: "shape4 B T N 2 x" and b: "b < B" and t: "t < T" and i: "0 < i" "i < N"
  shows "shift_pad x ! b ! t ! i = x ! b ! t ! (i - 1)"
proof -
  have xb: "shape3 T N 2 (x ! b)" using sh b by (rule shape4_nth)
  have xbt: "shape2 N 2 (x ! b ! t)" using xb t by (rule shape3_nth)
  have "shift_pad x ! b ! t = replicate 2 0 # butlast (x ! b ! t)"
    using sh b xb t by (simp add: shift_pad_def shape4_def shape3_def)
  then show ?thesis using i xbt by (cases i) (simp_all add: nth_butlast shape2_def)
qed

lemma shift_chosen_f_eq:
  assumes sh: "shape4 B T (NUM_NOTES cfg) 2 x" and T: "0 < T" and N: "0 < NUM_NOTES cfg"
  shows "shift_chosen_f cfg T x = Inr (shift_pad x)"
proof -
  have sp: "shape4 B T (NUM_NOTES cfg) 2 (shift_pad x)" using sh N by (rule shift_pad_shape)
  have len: "length (shift_pad x) = B" using sp by (rule shape4_length)
  have pos: "T * NUM_NOTES cfg \<noteq> 0" using T N by simp
  have size: "T * (NUM_NOTES cfg - 1 + 1) * 2 = (T * NUM_NOTES cfg) * 2" using N by simp
  have "Reshape ((T * NUM_NOTES cfg) * 2) T (NUM_NOTES cfg) (shift_pad x)
        = reshape4 B T (NUM_NOTES cfg) 2 (flat4 (shift_pad x))"
    using pos len unfolding Reshape_def by simp
  also have "\<dots> = Inr (shift_pad x)" using sp by (rule reshape4_flat4)
  finally show ?thesis unfolding shift_chosen_f_def size .
qed

text \<open>
  Claim C2. For every target of shape (B, T, NUM_NOTES, 2), with the input dropout rate 0,
  the shifted target that is concatenated onto the features has the same shape, is zero at
  pitch index 0 in both channels, and at every pitch index \<open>i > 0\<close> holds the target's value
  at pitch index \<open>i - 1\<close> of the same sample, time step and channel.
\<close>

theorem shift_chosen_f_shift:
  assumes "shape4 B T (NUM_NOTES cfg) 2 chosen_in" and "0 < T" and "0 < NUM_NOTES cfg"
  shows "\<exists>y. shift_chosen_f cfg T (Dropout4 0 training keep chosen_in) = Inr y
     \<and> shape4 B T (NUM_NOTES cfg) 2 y
     \<and> (\<forall>b<B. \<forall>t<T. \<forall>c<2.
           y ! b ! t ! 0 ! c = 0
         \<and> (\<forall>i. 0 < i \<and> i < NUM_NOTES cfg \<longrightarrow> y ! b ! t ! i ! c = chosen_in ! b ! t ! (i - 1) ! c))"
proof -
  have eq: "shift_chosen_f cfg T (Dropout4 0 training keep chosen_in) = Inr (shift_pad chosen_in)"
    using assms by (simp add: Dropout4_off shift_chosen_f_eq)
  have sp: "shape4 B T (NUM_NOTES cfg) 2 (shift_pad chosen_in)"
    using assms(1,3) by (rule shift_pad_shape)
  have "shift_pad chosen_in ! b ! t ! 0 ! c = 0
         \<and> (\<forall>i. 0 < i \<and> i < NUM_NOTES cfg \<longrightarrow>
               shift_pad chosen_in ! b ! t ! i ! c = chosen_in ! b ! t ! (i - 1) ! c)"
    if b: "b < B" and t: "t < T" and c: "c < 2" for b t c
  proof (intro conjI allI impI)
    have "c = 0 \<or> c = 1" using c by auto
    then show "shift_pad chosen_in ! b ! t ! 0 ! c = 0"
      using shift_pad_first[OF assms(1) b t] by auto
  next
    fix i assume "0 < i \<and> i < NUM_NOTES cfg"
    then show "shift_pad chosen_in ! b ! t ! i ! c = chosen_in ! b ! t ! (i - 1) ! c"
      using shift_pad_next[OF assms(1) b t, of i] by simp
  qed
  with eq sp show ?thesis by blast
qed

lemma chosen_example_shape: "shape4 2 16 48 2 chosen_example"
  by (simp add: chosen_example_def shape4_def shape3_def shape2_def list_all_iff)

theorem shift_chosen_f_shift_witness:
  "\<exists>y. shift_chosen_f example_config 16 (Dropout4 0 True (\<lambda>_. False) chosen_example) = Inr y
     \<and> shape4 2 16 48 2 y \<and> y ! 1 ! 3 ! 0 ! 1 = 0 \<and> y ! 1 ! 3 ! 5 ! 0 = 4"
proof -
  have sh: "shape4 2 16 (NUM_NOTES example_config) 2 chosen_example"
    using chosen_example_shape by (simp add: example_config_def)
  have T: "0 < (16::nat)" by simp
  have N: "0 < NUM_NOTES example_config" by (simp add: example_config_def)
  from shift_chosen_f_shift [OF sh T N, of True "\<lambda>_. False"]
  obtain y where y: "shift_chosen_f example_config 16 (Dropout4 0 True (\<lambda>_. False) chosen_example) = Inr y"
    and ysh: "shape4 2 16 48 2 y"
    and v: "\<forall>b<2. \<forall>t<16. \<forall>c<2.
           y ! b ! t ! 0 ! c = 0
         \<and> (\<forall>i. 0 < i \<and> i < 48 \<longrightarrow> y ! b ! t ! i ! c = chosen_example ! b ! t ! (i - 1) ! c)"
    by (auto simp: example_config_def)
  have a: "y ! 1 ! 3 ! 0 ! 1 = 0" using v by simp
  have "y ! 1 ! 3 ! 5 ! 0 = chosen_example ! 1 ! 3 ! (5 - 1) ! 0" using v by simp
  also have "\<dots> = 4" by (simp add: chosen_example_def)
  finally have "y ! 1 ! 3 ! 5 ! 0 = 4" .
  with y ysh a show ?thesis by blast
qed

section \<open>Shapes through the layers\<close>

lemma shape4_outer: "shape4 d0 d1 d2 d3 x \<Longrightarrow> shape3 d0 d1 d2 x"
  by (auto simp: shape4_def shape3_def shape2_def list_all_iff)

lemma shape3_outer: "shape3 d0 d1 d2 x \<Longrightarrow> shape2 d0 d1 x"
  by (auto simp: shape3_def shape2_def list_all_iff)

lemma shape2_map:
  "shape2 a b x \<Longrightarrow> (\<And>r. length r = b \<Longrightarrow> length (f r) = c) \<Longrightarrow> shape2 a c (map f x)"
  by (auto simp: shape2_def list_all_iff)

lemma shape3_map:
  "shape3 a b c x \<Longrightarrow> (\<And>s. shape2 b c s \<Longrightarrow> shape2 b' c' (f s)) \<Longrightarrow> shape3 a b' c' (map f x)"
  by (auto simp: shape3_def list_all_iff)

lemma shape4_map:
  "shape4 a b c d x \<Longrightarrow> (\<And>s. shape3 b c d s \<Longrightarrow> shape3 b' c' d' (f s))
   \<Longrightarrow> shape4 a b' c' d' (map f x)"
  by (auto simp: shape4_def list_all_iff)

lemma shape2_map2:
  assumes "shape2 a b x" "shape2 a b y"
    and "\<And>r s. length r = b \<Longrightarrow> length s = b \<Longrightarrow> length (f r s) = c"
  shows "shape2 a c (map2 f x y)"
  using assms by (intro shape2I) (simp_all add: shape2_def list_all_length)

lemma shape3_map2:
  assumes "shape3 a b c x" "shape3 a b c y"
    and "\<And>r s. shape2 b c r \<Longrightarrow> shape2 b c s \<Longrightarrow> shape2 b' c' (f r s)"
  shows "shape3 a b' c' (map2 f x y)"
  using assms by (intro shape3I) (simp_all add: shape3_def list_all_length)

lemma length_imap: "length (imap f xs) = length xs"
  by (simp add: imap_def)

lemma nth_imap: "i < length xs \<Longrightarrow> imap f xs ! i = f i (xs ! i)"
  by (simp add: imap_def)

lemma shape2_imap:
  assumes "shape2 a b x" and "\<And>i r. length r = b \<Longrightarrow> length (f i r) = c"
  shows "shape2 a c (imap f x)"
  using assms by (intro shape2I) (simp_all add: shape2_def list_all_length length_imap nth_imap)

lemma shape3_imap:
  assumes "shape3 a b c x" and "\<And>i s. shape2 b c s \<Longrightarrow> shape2 b' c' (f i s)"
  shows "shape3 a b' c' (imap f x)"
  using assms by (intro shape3I) (simp_all add: shape3_def list_all_length length_imap nth_imap)

lemma shape4_imap:
  assumes "shape4 a b c d x" and "\<And>i s. shape3 b c d s \<Longrightarrow> shape3 b' c' d' (f i s)"
  shows "shape4 a b' c' d' (imap f x)"
  using assms by (intro shape4I) (simp_all add: shape4_def list_all_length length_imap nth_imap)

text \<open>Dropout keeps every extent, whatever the rate and the mask.\<close>

lemma Dropout3_shape: "shape3 a b c x \<Longrightarrow> shape3 a b c (Dropout3 rate training keep x)"
  unfolding Dropout3_def dropped_inputs3_def
  by (auto intro!: shape3_imap shape2_imap simp: length_imap)

lemma Dropout4_shape: "shape4 a b c d x \<Longrightarrow> shape4 a b c d (Dropout4 rate training keep x)"
  unfolding Dropout4_def dropped_inputs4_def
  by (auto intro!: shape4_imap shape3_imap shape2_imap simp: length_imap)

lemma Dropout4_outer: "shape3 a b c x \<Longrightarrow> shape3 a b c (Dropout4 rate training keep x)"
  unfolding Dropout4_def dropped_inputs4_def
  by (auto intro!: shape3_imap shape2_imap simp: length_imap)

lemma length_Dense: "length (Dense units w act v) = units"
  by (simp add: Dense_def)

lemma Dense3_shape: "shape2 a b x \<Longrightarrow> shape3 a b units (Dense3 units w act x)"
  unfolding Dense3_def
  by (auto simp: shape3_def shape2_def list_all_iff length_Dense)

lemma Dense4_shape: "shape3 a b c x \<Longrightarrow> shape4 a b c units (Dense4 units w act x)"
  unfolding Dense4_def
  by (auto simp: shape4_def shape3_def shape2_def list_all_iff length_Dense)

lemma Activation3_shape: "shape3 a b c x \<Longrightarrow> shape3 a b c (Activation3 f x)"
  unfolding Activation3_def
  by (auto simp: shape3_def shape2_def list_all_iff)

lemma Activation4_outer: "shape3 a b c x \<Longrightarrow> shape3 a b c (Activation4 f x)"
  unfolding Activation4_def
  by (auto simp: shape3_def shape2_def list_all_iff)

lemma RepeatVector_shape:
  "shape2 a b x \<Longrightarrow> shape3 a b n (TimeDistributed_RepeatVector n x)"
  unfolding TimeDistributed_RepeatVector_def
  by (auto simp: shape3_def shape2_def list_all_iff)

lemma Permute_shape: "length x = a \<Longrightarrow> shape3 a d2 d1 (Permute d1 d2 x)"
  unfolding Permute_def
  by (auto simp: shape3_def shape2_def list_all_iff)

lemma Add_outer: "shape3 a b c x \<Longrightarrow> shape3 a b c y \<Longrightarrow> shape3 a b c (Add x y)"
  unfolding Add_def
  by (auto intro!: shape3_map2 shape2_map2)

lemma cat_outer:
  "shape3 a b c x \<Longrightarrow> shape3 a b c y \<Longrightarrow> shape3 a b c (map2 (map2 (map2 (@))) x y)"
  by (auto intro!: shape3_map2 shape2_map2)

lemma Concatenate2_outer:
  "shape3 a b c x \<Longrightarrow> shape3 a b c y \<Longrightarrow> shape3 a b c (Concatenate [x, y])"
  by (simp add: cat_outer)

lemma Concatenate5_outer:
  "shape3 a b c x1 \<Longrightarrow> shape3 a b c x2 \<Longrightarrow> shape3 a b c x3 \<Longrightarrow> shape3 a b c x4
   \<Longrightarrow> shape3 a b c x5 \<Longrightarrow> shape3 a b c (Concatenate [x1, x2, x3, x4, x5])"
  by (simp add: cat_outer)

lemma length_lstm_run: "length (lstm_run cell s xs) = length xs"
  by (induction xs arbitrary: s) (simp_all add: Let_def)

lemma LSTM_outer: "shape3 a b c x \<Longrightarrow> shape3 a b c (TimeDistributed_LSTM units cell x)"
  unfolding TimeDistributed_LSTM_def LSTM_def
  by (auto simp: shape3_def shape2_def list_all_iff length_lstm_run)

section \<open>The feature stage returns\<close>

lemma sequence_Inr:
  "list_all (\<lambda>r. \<exists>v. r = Inr v \<and> P v) rs
   \<Longrightarrow> \<exists>vs. sequence rs = Inr vs \<and> length vs = length rs \<and> list_all P vs"
  by (induction rs) auto

lemma Conv1D_ok:
  "0 < k \<Longrightarrow> \<exists>ys. Conv1D filters k channels w xs = Inr ys \<and> length ys = length xs"
  by (simp add: Conv1D_def Let_def)

lemma TimeDistributed_Conv1D_ok:
  assumes k: "0 < k" and sh: "shape3 a b c x"
  shows "\<exists>y. TimeDistributed_Conv1D filters k channels w x = Inr y \<and> shape3 a b c y"
proof -
  have inner: "\<exists>v. sequence (map (Conv1D filters k channels w) sample) = Inr v \<and> shape2 b c v"
    if s: "shape2 b c sample" for sample
  proof -
    have "list_all (\<lambda>r. \<exists>v. r = Inr v \<and> length v = c) (map (Conv1D filters k channels w) sample)"
      using s Conv1D_ok[OF k, of filters channels w]
      by (auto simp: list_all_iff shape2_def)
    from sequence_Inr[OF this] s show ?thesis by (auto simp: shape2_def)
  qed
  have "list_all (\<lambda>r. \<exists>v. r = Inr v \<and> shape2 b c v)
          (map (\<lambda>sample. sequence (map (Conv1D filters k channels w) sample)) x)"
    using sh inner by (auto simp: list_all_iff shape3_def)
  from sequence_Inr[OF this] sh show ?thesis
    by (auto simp: TimeDistributed_Conv1D_def shape3_def)
qed

lemma strided_count:
  fixes k step i :: nat
  assumes "0 < step" "i < step"
  shows "(k * step - i + step - 1) div step = k"
proof (cases "k = 0")
  case True
  then show ?thesis using assms by simp
next
  case False
  define r where "r = step - 1 - i"
  have r: "r < step" using assms by (simp add: r_def)
  have "i \<le> k * step" using assms False by (cases k) (simp_all add: trans_le_add1)
  then have eq: "k * step - i + step - 1 = r + k * step"
    using assms unfolding r_def by auto
  have "(r + k * step) div step = k" using r by simp
  then show ?thesis unfolding eq .
qed

lemma length_strided:
  fixes k step i :: nat
  shows "0 < step \<Longrightarrow> i < step \<Longrightarrow> length xs = k * step \<Longrightarrow> length (strided i step xs) = k"
  using strided_count[of step i k] by (simp add: strided_def)

lemma played_slice_shape:
  assumes "shape3 B T (k * step) x" "0 < step" "i < step"
  shows "shape3 B T k (played_slice i step x)"
  unfolding played_slice_def using assms
  by (auto simp: shape3_def shape2_def list_all_iff length_strided)

lemma shape3_lengths: "shape3 a b c x \<Longrightarrow> map (map length) x = replicate a (replicate b c)"
  by (auto simp: shape3_def shape2_def list_all_iff intro!: replicate_eqI)

lemma stack3_ok:
  assumes "ts \<noteq> []" "list_all (\<lambda>u. fst u = s \<and> shape3 a b c (snd u)) ts"
  shows "stack3 ts = Inr (map snd ts)"
proof (cases ts)
  case Nil
  with assms show ?thesis by simp
next
  case (Cons t rest)
  have "list_all (\<lambda>u. fst u = fst t
                     \<and> map (map length) (snd u) = map (map length) (snd t)) rest"
    using assms(2) Cons by (auto simp: list_all_iff shape3_lengths)
  then show ?thesis using Cons by (simp add: stack3_def)
qed

lemma slice_extent_whole:
  "0 < step \<Longrightarrow> i < step \<Longrightarrow> slice_extent i step (k * step) = k"
  unfolding slice_extent_def by (rule strided_count)

lemma reduce_sum_axis3_shape:
  "shape4 a b c d x \<Longrightarrow> shape3 a b c (reduce_sum_axis3 x)"
  unfolding reduce_sum_axis3_def
  by (auto simp: shape4_def shape3_def shape2_def list_all_iff)

lemma tile3_leading: "tile3 m (Suc 0) (Suc 0) x = tile1 m x"
proof -
  have "map (\<lambda>a. tile1 (Suc 0) (map (tile1 (Suc 0)) a)) x = x"
    by (simp add: tile1_one map_tile1_one)
  then show ?thesis by (simp add: tile3_def)
qed

lemma tile1_shape3:
  assumes "shape3 a b c x"
  shows "shape3 (m * a) b c (tile1 m x)"
proof -
  have "length (tile1 m x) = m * a" using assms by (simp add: length_tile1 shape3_def)
  moreover have "list_all (shape2 b c) (tile1 m x)"
    using assms by (auto simp: tile1_def shape3_def list_all_iff)
  ultimately show ?thesis by (simp add: shape3_def)
qed

lemma pitch_bins_f_ok:
  assumes oct: "0 < OCTAVE cfg"
    and N: "NUM_NOTES cfg = NUM_OCTAVES cfg * OCTAVE cfg"
    and sh: "shape4 B T (NUM_NOTES cfg) C x"
  shows "\<exists>y. pitch_bins_f cfg T x = Inr y \<and> shape4 B T (NUM_NOTES cfg) 1 y"
proof -
  define ts where "ts = map (\<lambda>i. played_slice i (OCTAVE cfg) x) [0..<OCTAVE cfg]"
  define ps where "ps = map (\<lambda>i. ([T, slice_extent i (OCTAVE cfg) (NUM_NOTES cfg)],
                                    played_slice i (OCTAVE cfg) x)) [0..<OCTAVE cfg]"
  have x3: "shape3 B T (NUM_OCTAVES cfg * OCTAVE cfg) x"
    using sh N by (simp add: shape4_outer)
  have all: "list_all (shape3 B T (NUM_OCTAVES cfg)) ts"
    using x3 oct by (simp add: ts_def list_all_iff played_slice_shape)
  have "list_all (\<lambda>u. fst u = [T, NUM_OCTAVES cfg] \<and> shape3 B T (NUM_OCTAVES cfg) (snd u)) ps"
    using x3 oct N by (simp add: ps_def list_all_iff played_slice_shape slice_extent_whole)
  moreover have "ps \<noteq> []" using oct by (simp add: ps_def)
  ultimately have "stack3 ps = Inr (map snd ps)" by (intro stack3_ok)
  moreover have "map snd ps = ts" by (simp add: ps_def ts_def comp_def)
  ultimately have st: "stack3 ps = Inr ts" by simp
  have ts4: "shape4 (OCTAVE cfg) B T (NUM_OCTAVES cfg) ts"
    using all by (simp add: shape4_def ts_def)
  have bins: "shape3 (OCTAVE cfg) B T (reduce_sum_axis3 ts)"
    using ts4 by (rule reduce_sum_axis3_shape)
  have tiled: "shape3 (NUM_OCTAVES cfg * OCTAVE cfg) B T (tile1 (NUM_OCTAVES cfg) (reduce_sum_axis3 ts))"
    using bins by (rule tile1_shape3)
  have "length (flat3 (tile1 (NUM_OCTAVES cfg) (reduce_sum_axis3 ts)))
        = NUM_OCTAVES cfg * OCTAVE cfg * (B * T)"
    using tiled by (rule length_flat3)
  also have "\<dots> = B * T * NUM_NOTES cfg * 1" using N by simp
  finally obtain y where
    y: "reshape4 B T (NUM_NOTES cfg) 1 (flat3 (tile1 (NUM_OCTAVES cfg) (reduce_sum_axis3 ts))) = Inr y"
    using reshape4_ok by blast
  have lx: "length x = B" using sh by (rule shape4_length)
  have "pitch_bins_f cfg T x = Inr y"
    using st y lx
    by (simp add: pitch_bins_f_def ps_def [symmetric] Let_def tile3_leading)
  moreover have "shape4 B T (NUM_NOTES cfg) 1 y" using y by (rule reshape4_shape)
  ultimately show ?thesis by blast
qed

lemma style_embedding_shape:
  assumes "shape3 B T S style_in"
  shows "shape3 B T (STYLE_UNITS cfg) (style_embedding cfg w input_dropout dropout training rng style_in)"
  unfolding style_embedding_def Let_def
  using assms by (intro Dropout3_shape Dense3_shape shape3_outer)

lemma beat_embedding_shape:
  assumes "shape3 B T S beat_in"
  shows "shape3 B T (BEAT_UNITS cfg) (beat_embedding cfg w input_dropout dropout training rng beat_in)"
  unfolding beat_embedding_def Let_def
  using assms by (intro Dropout3_shape Activation3_shape Dense3_shape shape3_outer)

lemma pitch_pos_in_f_ok:
  "\<exists>y. pitch_pos_in_f cfg T x = Inr y \<and> shape4 (length x) T (NUM_NOTES cfg) 1 y"
proof -
  have "length (tile1 (length x * T) (map (\<lambda>i. real i / real (NUM_NOTES cfg)) [0..<NUM_NOTES cfg]))
        = length x * T * NUM_NOTES cfg * 1"
    by (simp add: length_tile1)
  from reshape4_ok[OF this] obtain y where
    y: "reshape4 (length x) T (NUM_NOTES cfg) 1
          (tile1 (length x * T) (map (\<lambda>i. real i / real (NUM_NOTES cfg)) [0..<NUM_NOTES cfg])) = Inr y"
    by blast
  then have "pitch_pos_in_f cfg T x = Inr y" by (simp add: pitch_pos_in_f_def Let_def)
  with reshape4_shape[OF y] show ?thesis by blast
qed

lemma pitch_class_in_f_ok:
  assumes "0 < OCTAVE cfg"
  shows "\<exists>y. pitch_class_in_f cfg T x = Inr y \<and> shape4 (length x) T (NUM_NOTES cfg) (OCTAVE cfg) y"
  using pitch_class_in_f_eq[OF assms, of T x]
  by (simp add: shape4_def shape3_def shape2_def list_all_iff length_one_hot)

lemma note_features_f_ok:
  assumes oct: "0 < OCTAVE cfg"
    and N: "NUM_NOTES cfg = NUM_OCTAVES cfg * OCTAVE cfg"
    and nsh: "shape4 B T (NUM_NOTES cfg) 2 nts"
    and beat: "shape3 B T U beat"
  shows "\<exists>f. note_features_f cfg w T dropout training rng nts beat = Inr f
             \<and> shape3 B T (NUM_NOTES cfg) f"
proof -
  have lx: "length nts = B" using nsh by (rule shape4_length)
  have k: "0 < 2 * OCTAVE cfg" using oct by simp
  from TimeDistributed_Conv1D_ok[OF k shape4_outer[OF nsh]]
  obtain oc where oc: "TimeDistributed_Conv1D (OCTAVE_UNITS cfg) (2 * OCTAVE cfg) 2 (octave_w w) nts = Inr oc"
    and ocs: "shape3 B T (NUM_NOTES cfg) oc" by blast
  have oc': "shape3 B T (NUM_NOTES cfg) (Dropout4 dropout training (rng 6) (Activation4 tanh oc))"
    using ocs by (intro Dropout4_outer Activation4_outer)
  from pitch_pos_in_f_ok[of cfg T nts] lx
  obtain pp where pp: "pitch_pos_in_f cfg T nts = Inr pp"
    and pps: "shape4 B T (NUM_NOTES cfg) 1 pp" by auto
  from pitch_class_in_f_ok[OF oct, of T nts] lx
  obtain pc where pc: "pitch_class_in_f cfg T nts = Inr pc"
    and pcs: "shape4 B T (NUM_NOTES cfg) (OCTAVE cfg) pc" by auto
  from pitch_bins_f_ok[OF oct N nsh]
  obtain pb where pb: "pitch_bins_f cfg T nts = Inr pb"
    and pbs: "shape4 B T (NUM_NOTES cfg) 1 pb" by blast
  have rb: "shape3 B T (NUM_NOTES cfg) (TimeDistributed_RepeatVector (NUM_NOTES cfg) beat)"
    using beat by (intro RepeatVector_shape shape3_outer)
  have "shape3 B T (NUM_NOTES cfg)
          (Concatenate [pp, pc, pb, Dropout4 dropout training (rng 6) (Activation4 tanh oc),
                        TimeDistributed_RepeatVector (NUM_NOTES cfg) beat])"
    using shape4_outer[OF pps] shape4_outer[OF pcs] shape4_outer[OF pbs] oc' rb
    by (rule Concatenate5_outer)
  moreover have "note_features_f cfg w T dropout training rng nts beat
     = Inr (Concatenate [pp, pc, pb, Dropout4 dropout training (rng 6) (Activation4 tanh oc),
                        TimeDistributed_RepeatVector (NUM_NOTES cfg) beat])"
    using oc pp pc pb by (simp add: note_features_f_def Let_def)
  ultimately show ?thesis by blast
qed

lemma time_axis_layer_shape:
  assumes x: "shape3 B (NUM_NOTES cfg) T (fst xw)" and style: "shape3 B T U style"
  shows "shape3 B (NUM_NOTES cfg) T (fst (time_axis_layer cfg w T dropout training rng style xw l))"
proof -
  have a: "shape3 B T (snd xw)
            (Dropout3 dropout training (rng (7 + 2 * l))
              (Activation3 tanh (Dense3 (snd xw) (time_style_w w l) linear_act style)))"
    using style by (intro Dropout3_shape Activation3_shape Dense3_shape shape3_outer)
  have "length (TimeDistributed_RepeatVector (NUM_NOTES cfg)
            (Dropout3 dropout training (rng (7 + 2 * l))
              (Activation3 tanh (Dense3 (snd xw) (time_style_w w l) linear_act style)))) = B"
    using a by (simp add: TimeDistributed_RepeatVector_def shape3_def)
  then have sp: "shape3 B (NUM_NOTES cfg) T
      (Permute T (NUM_NOTES cfg) (TimeDistributed_RepeatVector (NUM_NOTES cfg)
            (Dropout3 dropout training (rng (7 + 2 * l))
              (Activation3 tanh (Dense3 (snd xw) (time_style_w w l) linear_act style)))))"
    by (rule Permute_shape)
  show ?thesis
    unfolding time_axis_layer_def Let_def fst_conv
    using x sp by (intro Dropout4_outer LSTM_outer Add_outer)
qed

lemma time_axis_shape:
  assumes style: "shape3 B T U style"
  shows "shape3 B (NUM_NOTES cfg) T (fst xw) \<Longrightarrow>
         shape3 B (NUM_NOTES cfg) T
           (fst (foldl (time_axis_layer cfg w T dropout training rng style) xw ls))"
proof (induction ls arbitrary: xw)
  case Nil
  then show ?case by simp
next
  case (Cons l ls)
  have "shape3 B (NUM_NOTES cfg) T (fst (time_axis_layer cfg w T dropout training rng style xw l))"
    using Cons.prems style by (rule time_axis_layer_shape)
  then show ?case by (simp add: Cons.IH)
qed

lemma note_axis_layer_shape:
  assumes x: "shape3 B T (NUM_NOTES cfg) (fst xw)" and style: "shape3 B T U style"
  shows "shape3 B T (NUM_NOTES cfg) (fst (note_axis_layer cfg w dropout training rng style xw l))"
proof -
  have a: "shape3 B T (snd xw)
            (Dropout3 dropout training (rng (7 + 2 * TIME_AXIS_LAYERS cfg + 2 * l))
              (Activation3 tanh (Dense3 (snd xw) (note_style_w w l) linear_act style)))"
    using style by (intro Dropout3_shape Activation3_shape Dense3_shape shape3_outer)
  have sp: "shape3 B T (NUM_NOTES cfg)
      (TimeDistributed_RepeatVector (NUM_NOTES cfg)
            (Dropout3 dropout training (rng (7 + 2 * TIME_AXIS_LAYERS cfg + 2 * l))
              (Activation3 tanh (Dense3 (snd xw) (note_style_w w l) linear_act style))))"
    using shape3_outer[OF a] by (rule RepeatVector_shape)
  show ?thesis
    unfolding note_axis_layer_def Let_def fst_conv
    using x sp by (intro Dropout4_outer LSTM_outer Add_outer)
qed

lemma note_axis_shape:
  assumes style: "shape3 B T U style"
  shows "shape3 B T (NUM_NOTES cfg) (fst xw) \<Longrightarrow>
         shape3 B T (NUM_NOTES cfg)
           (fst (foldl (note_axis_layer cfg w dropout training rng style) xw ls))"
proof (induction ls arbitrary: xw)
  case Nil
  then show ?case by simp
next
  case (Cons l ls)
  have "shape3 B T (NUM_NOTES cfg) (fst (note_axis_layer cfg w dropout training rng style xw l))"
    using Cons.prems style by (rule note_axis_layer_shape)
  then show ?case by (simp add: Cons.IH)
qed

section \<open>The forward pass returns\<close>

lemma sigmoid_range: "0 \<le> sigmoid v \<and> sigmoid v \<le> 1"
proof -
  have e: "0 < exp (- v)" by simp
  then have pos: "0 < 1 + exp (- v)" by (simp add: add_pos_pos)
  have "1 \<le> 1 + exp (- v)" using e by simp
  then show ?thesis unfolding sigmoid_def using pos by (simp add: divide_le_eq_1)
qed

lemma Dense_sigmoid_range:
  "j < units \<Longrightarrow> 0 \<le> Dense units w sigmoid v ! j \<and> Dense units w sigmoid v ! j \<le> 1"
  by (simp add: Dense_def sigmoid_range)

lemma Dense4_nth:
  assumes "shape3 a b c x" "i < a" "j < b" "k < c"
  shows "Dense4 units w act x ! i ! j ! k = Dense units w act (x ! i ! j ! k)"
proof -
  have xi: "shape2 b c (x ! i)" using assms(1,2) by (rule shape3_nth)
  have "length (x ! i ! j) = c" using xi assms(3) by (rule shape2_nth)
  then show ?thesis
    using assms xi by (simp add: Dense4_def shape3_def shape2_def)
qed

lemma forward_ok:
  assumes oct: "0 < OCTAVE cfg"
    and N: "NUM_NOTES cfg = NUM_OCTAVES cfg * OCTAVE cfg"
    and Npos: "0 < NUM_NOTES cfg"
    and T: "0 < T"
    and nsh: "shape4 B T (NUM_NOTES cfg) 2 notes_in"
    and csh: "shape4 B T (NUM_NOTES cfg) 2 chosen_in"
    and bsh: "shape3 B T 2 beat_in"
    and ssh: "shape3 B T (NUM_STYLES cfg) style_in"
  shows "\<exists>y. forward cfg w T input_dropout dropout training rng notes_in chosen_in beat_in style_in = Inr y
     \<and> shape4 B T (NUM_NOTES cfg) 2 y
     \<and> (\<forall>b<B. \<forall>t<T. \<forall>n<NUM_NOTES cfg. \<forall>c<2. 0 \<le> y ! b ! t ! n ! c \<and> y ! b ! t ! n ! c \<le> 1)"
proof -
  define nts where "nts = Dropout4 input_dropout training (rng 0) notes_in"
  define chosen where "chosen = Dropout4 input_dropout training (rng 2) chosen_in"
  define style where "style = style_embedding cfg w input_dropout dropout training rng style_in"
  define beat where "beat = beat_embedding cfg w input_dropout dropout training rng beat_in"
  have nts: "shape4 B T (NUM_NOTES cfg) 2 nts" unfolding nts_def using nsh by (rule Dropout4_shape)
  have chosen: "shape4 B T (NUM_NOTES cfg) 2 chosen"
    unfolding chosen_def using csh by (rule Dropout4_shape)
  have style: "shape3 B T (STYLE_UNITS cfg) style"
    unfolding style_def using ssh by (rule style_embedding_shape)
  have beat: "shape3 B T (BEAT_UNITS cfg) beat"
    unfolding beat_def using bsh by (rule beat_embedding_shape)
  from note_features_f_ok[OF oct N nts beat]
  obtain f where f: "note_features_f cfg w T dropout training rng nts beat = Inr f"
    and fsh: "shape3 B T (NUM_NOTES cfg) f" by blast
  define xw1 where "xw1 = foldl (time_axis_layer cfg w T dropout training rng style)
                        (Permute T (NUM_NOTES cfg) f, 2 + OCTAVE cfg + OCTAVE_UNITS cfg + BEAT_UNITS cfg)
                        [0..<TIME_AXIS_LAYERS cfg]"
  have "shape3 B (NUM_NOTES cfg) T (Permute T (NUM_NOTES cfg) f)"
    using shape3_length[OF fsh] by (rule Permute_shape)
  then have "shape3 B (NUM_NOTES cfg) T (fst xw1)"
    unfolding xw1_def by (intro time_axis_shape[OF style]) simp
  then have x2: "shape3 B T (NUM_NOTES cfg) (Permute (NUM_NOTES cfg) T (fst xw1))"
    by (intro Permute_shape shape3_length)
  have sc: "shift_chosen_f cfg T chosen = Inr (shift_pad chosen)"
    using chosen T Npos by (rule shift_chosen_f_eq)
  have scs: "shape4 B T (NUM_NOTES cfg) 2 (shift_pad chosen)"
    using chosen Npos by (rule shift_pad_shape)
  define xw2 where "xw2 = foldl (note_axis_layer cfg w dropout training rng style)
                     (Concatenate [Permute (NUM_NOTES cfg) T (fst xw1), shift_pad chosen], snd xw1 + 2)
                     [0..<NOTE_AXIS_LAYERS cfg]"
  have "shape3 B T (NUM_NOTES cfg) (Concatenate [Permute (NUM_NOTES cfg) T (fst xw1), shift_pad chosen])"
    using x2 shape4_outer[OF scs] by (rule Concatenate2_outer)
  then have x4: "shape3 B T (NUM_NOTES cfg) (fst xw2)"
    unfolding xw2_def by (intro note_axis_shape[OF style]) simp
  define y where "y = Dense4 2 (note_out_w w) sigmoid (fst xw2)"
  have eq: "forward cfg w T input_dropout dropout training rng notes_in chosen_in beat_in style_in = Inr y"
    using f sc
    unfolding forward_def Let_def y_def xw2_def xw1_def nts_def chosen_def style_def beat_def
    by simp
  have ysh: "shape4 B T (NUM_NOTES cfg) 2 y" unfolding y_def using x4 by (rule Dense4_shape)
  have "0 \<le> y ! b ! t ! n ! c \<and> y ! b ! t ! n ! c \<le> 1"
    if "b < B" "t < T" "n < NUM_NOTES cfg" "c < 2" for b t n c
    unfolding y_def Dense4_nth[OF x4 that(1-3)] using that(4) by (rule Dense_sigmoid_range)
  with eq ysh show ?thesis by blast
qed

section \<open>Determinism\<close>

lemma model_call_valid:
  assumes "shape4 B T (NUM_NOTES cfg) 2 notes_in"
    and "shape4 B T (NUM_NOTES cfg) 2 chosen_in"
    and "shape3 B T 2 beat_in"
    and "shape3 B T (NUM_STYLES cfg) style_in"
  shows "model_call cfg w T input_dropout dropout training rng
           [Rank4 notes_in, Rank4 chosen_in, Rank3 beat_in, Rank3 style_in]
         = forward cfg w T input_dropout dropout training rng notes_in chosen_in beat_in style_in"
  using assms by (simp add: model_call_def shape4_def shape3_def)

lemma style_embedding_off:
  "style_embedding cfg w 0 0 training rng style_in
   = Dense3 (STYLE_UNITS cfg) (style_w w) linear_act style_in"
  by (simp add: style_embedding_def Dropout3_off)

lemma beat_embedding_off:
  "beat_embedding cfg w 0 0 training rng beat_in
   = Activation3 tanh (Dense3 (BEAT_UNITS cfg) (beat_w w) linear_act beat_in)"
  by (simp add: beat_embedding_def Dropout3_off)

lemma note_features_f_off:
  "note_features_f cfg w T 0 training rng nts beat = note_features_f cfg w T 0 training' rng' nts beat"
  unfolding note_features_f_def Dropout4_off by (rule refl)

lemma time_axis_layer_off:
  "time_axis_layer cfg w T 0 training rng style = time_axis_layer cfg w T 0 training' rng' style"
  by (intro ext) (simp add: time_axis_layer_def Dropout3_off Dropout4_off)

lemma note_axis_layer_off:
  "note_axis_layer cfg w 0 training rng style = note_axis_layer cfg w 0 training' rng' style"
  by (intro ext) (simp add: note_axis_layer_def Dropout3_off Dropout4_off)

lemma forward_off:
  "forward cfg w T 0 0 training rng notes_in chosen_in beat_in style_in
   = forward cfg w T 0 0 training' rng' notes_in chosen_in beat_in style_in"
  unfolding forward_def Dropout4_off style_embedding_off beat_embedding_off
    note_features_f_off[of cfg w T training rng _ _ training' rng']
    time_axis_layer_off[of cfg w T training rng _ training' rng']
    note_axis_layer_off[of cfg w training rng _ training' rng']
  by (rule refl)

text \<open>
  Claim C8. With both dropout rates 0 and fixed weights, the output of the model is a
  function of the input arrays alone: two evaluations on the same arrays agree, whatever
  masks the dropout layers draw and whatever the phase is.
\<close>

theorem model_call_deterministic:
  "model_call cfg w T 0 0 training rng inputs = model_call cfg w T 0 0 training' rng' inputs"
  unfolding model_call_def forward_off[of cfg w T training rng _ _ _ _ training' rng']
  by (rule refl)

section \<open>Notes that are not a whole number of octaves\<close>

lemma ragged_counts:
  fixes N d :: nat
  assumes d: "0 < d" and nd: "\<not> d dvd N"
  shows "(N - 0 + d - 1) div d \<noteq> (N - (d - 1) + d - 1) div d"
proof -
  define q where "q = N div d"
  define r where "r = N mod d"
  have N: "N = r + q * d" by (simp add: q_def r_def)
  have r0: "0 < r" using nd by (auto simp: r_def dvd_eq_mod_eq_0)
  have rd: "r < d" using d by (simp add: r_def)
  have "N - 0 + d - 1 = (r - 1) + (q + 1) * d" using r0 N by simp
  moreover have "((r - 1) + (q + 1) * d) div d = q + 1"
  proof -
    have "((r - 1) + (q + 1) * d) div d = (q + 1) + (r - 1) div d"
      using d by (intro div_mult_self1) simp
    also have "(r - 1) div d = 0" using rd by simp
    finally show ?thesis by simp
  qed
  ultimately have c0: "(N - 0 + d - 1) div d = q + 1" by simp
  have c1: "(N - (d - 1) + d - 1) div d = q"
  proof (cases "d - 1 \<le> N")
    case True
    then have e: "N - (d - 1) + d - 1 = N" using d by simp
    show ?thesis unfolding e q_def by (rule refl)
  next
    case False
    then have e: "N - (d - 1) + d - 1 = d - 1" by simp
    have "q = 0" using False by (simp add: q_def)
    moreover have "(d - 1) div d = 0" using d by simp
    ultimately show ?thesis unfolding e by simp
  qed
  show ?thesis using c0 c1 by simp
qed

lemma ragged_extents:
  assumes "0 < d" "\<not> d dvd N"
  shows "slice_extent (d - 1) d N \<noteq> slice_extent 0 d N"
  using ragged_counts[OF assms] unfolding slice_extent_def by simp

lemma pitch_bins_f_ragged:
  assumes oct: "0 < OCTAVE cfg" and nd: "\<not> OCTAVE cfg dvd NUM_NOTES cfg"
  shows "pitch_bins_f cfg T x = Inl ShapeMismatch"
proof -
  define d where "d = OCTAVE cfg"
  define N where "N = NUM_NOTES cfg"
  have d2: "1 < d" using oct nd by (cases "d = 1") (auto simp: d_def)
  have upt: "[0..<d] = 0 # [1..<d]" using d2 by (simp add: upt_rec)
  have last_in: "d - 1 \<in> set [1..<d]" using d2 by simp
  have ne: "slice_extent (d - 1) d N \<noteq> slice_extent 0 d N"
    using oct nd unfolding d_def N_def by (rule ragged_extents)
  have "\<not> list_all (\<lambda>u. fst u = fst ([T, slice_extent 0 d N], played_slice 0 d x)
            \<and> map (map length) (snd u)
                = map (map length) (snd ([T, slice_extent 0 d N], played_slice 0 d x)))
          (map (\<lambda>i. ([T, slice_extent i d N], played_slice i d x)) [1..<d])"
    using last_in ne by (auto simp: list_all_iff)
  then have "stack3 (map (\<lambda>i. ([T, slice_extent i d N], played_slice i d x)) [0..<d])
             = Inl ShapeMismatch"
    unfolding upt by (simp add: stack3_def)
  then show ?thesis by (simp add: pitch_bins_f_def d_def N_def)
qed

lemma reshape4_error: "reshape4 d0 d1 d2 d3 buf = Inl e \<Longrightarrow> e = ShapeMismatch"
  by (simp add: reshape4_def split: if_splits)

lemma sequence_error: "sequence rs = Inl e \<Longrightarrow> Inl e \<in> set rs"
  by (induction rs) (auto split: sum.splits)

lemma Conv1D_error: "Conv1D filters k channels w xs = Inl e \<Longrightarrow> e = ShapeMismatch"
  by (simp add: Conv1D_def Let_def split: if_splits)

lemma TimeDistributed_Conv1D_error:
  assumes "TimeDistributed_Conv1D filters k channels w x = Inl e"
  shows "e = ShapeMismatch"
proof -
  from sequence_error[OF assms[unfolded TimeDistributed_Conv1D_def]]
  obtain sample where "sequence (map (Conv1D filters k channels w) sample) = Inl e" by auto
  from sequence_error[OF this]
  obtain xs where "Conv1D filters k channels w xs = Inl e" by auto
  then show ?thesis by (rule Conv1D_error)
qed

lemma pitch_pos_in_f_error: "pitch_pos_in_f cfg T x = Inl e \<Longrightarrow> e = ShapeMismatch"
  using pitch_pos_in_f_ok[of cfg T x] by auto

lemma pitch_class_in_f_error:
  "0 < OCTAVE cfg \<Longrightarrow> pitch_class_in_f cfg T x = Inl e \<Longrightarrow> e = ShapeMismatch"
  using pitch_class_in_f_eq[of cfg T x] by auto

lemma stack3_error: "stack3 ts = Inl e \<Longrightarrow> e = ShapeMismatch"
  by (simp add: stack3_def split: list.splits if_splits)

lemma pitch_bins_f_error: "pitch_bins_f cfg T x = Inl e \<Longrightarrow> e = ShapeMismatch"
  by (auto simp: pitch_bins_f_def Let_def split: sum.splits dest: stack3_error reshape4_error)

lemma shift_chosen_f_error: "shift_chosen_f cfg T x = Inl e \<Longrightarrow> e = ShapeMismatch"
  by (auto simp: shift_chosen_f_def Reshape_def split: if_splits dest: reshape4_error)

lemma note_features_f_error:
  "0 < OCTAVE cfg \<Longrightarrow> note_features_f cfg w T dropout training rng nts beat = Inl e
   \<Longrightarrow> e = ShapeMismatch"
  by (auto simp: note_features_f_def Let_def split: sum.splits
       dest: TimeDistributed_Conv1D_error pitch_pos_in_f_error pitch_class_in_f_error
             pitch_bins_f_error)

lemma forward_error:
  "0 < OCTAVE cfg \<Longrightarrow>
   forward cfg w T input_dropout dropout training rng notes_in chosen_in beat_in style_in = Inl e
   \<Longrightarrow> e = ShapeMismatch"
  by (auto simp: forward_def Let_def split: sum.splits
       dest: note_features_f_error shift_chosen_f_error)

lemma model_call_error:
  assumes "0 < OCTAVE cfg"
    and "model_call cfg w T input_dropout dropout training rng inputs = Inl e"
  shows "e = ShapeMismatch"
  using assms
  by (auto simp: model_call_def split: list.splits array.splits if_splits dest: forward_error)

lemma TimeDistributed_Conv1D_returns:
  assumes k: "0 < k"
  shows "\<exists>y. TimeDistributed_Conv1D filters k channels w x = Inr y"
proof -
  have inner: "\<exists>v. sequence (map (Conv1D filters k channels w) sample) = Inr v \<and> True"
    for sample
  proof -
    have "list_all (\<lambda>r. \<exists>v. r = Inr v \<and> True) (map (Conv1D filters k channels w) sample)"
      using Conv1D_ok[OF k, of filters channels w] by (auto simp: list_all_iff)
    from sequence_Inr[OF this] show ?thesis by auto
  qed
  have "list_all (\<lambda>r. \<exists>v. r = Inr v \<and> True)
          (map (\<lambda>sample. sequence (map (Conv1D filters k channels w) sample)) x)"
    using inner by (auto simp: list_all_iff)
  from sequence_Inr[OF this] show ?thesis
    by (auto simp: TimeDistributed_Conv1D_def)
qed

lemma note_features_f_ragged:
  assumes oct: "0 < OCTAVE cfg" and nd: "\<not> OCTAVE cfg dvd NUM_NOTES cfg"
  shows "note_features_f cfg w T dropout training rng nts beat = Inl ShapeMismatch"
proof -
  have k: "0 < 2 * OCTAVE cfg" using oct by simp
  from TimeDistributed_Conv1D_returns[OF k]
  obtain oc where oc: "TimeDistributed_Conv1D (OCTAVE_UNITS cfg) (2 * OCTAVE cfg) 2 (octave_w w) nts = Inr oc"
    by blast
  from pitch_pos_in_f_ok[of cfg T nts]
  obtain pp where pp: "pitch_pos_in_f cfg T nts = Inr pp" by blast
  from pitch_class_in_f_ok[OF oct, of T nts]
  obtain pc where pc: "pitch_class_in_f cfg T nts = Inr pc" by blast
  have pb: "pitch_bins_f cfg T nts = Inl ShapeMismatch"
    using oct nd by (rule pitch_bins_f_ragged)
  show ?thesis using oc pp pc pb by (simp add: note_features_f_def Let_def)
qed

lemma forward_ragged:
  assumes "0 < OCTAVE cfg" and "\<not> OCTAVE cfg dvd NUM_NOTES cfg"
  shows "forward cfg w T input_dropout dropout training rng notes_in chosen_in beat_in style_in
         = Inl ShapeMismatch"
  by (simp add: forward_def Let_def note_features_f_ragged[OF assms])

lemma model_call_ragged:
  assumes "0 < OCTAVE cfg" and "\<not> OCTAVE cfg dvd NUM_NOTES cfg"
  shows "model_call cfg w T input_dropout dropout training rng inputs = Inl ShapeMismatch"
  by (simp add: model_call_def forward_ragged[OF assms] split: list.splits array.splits)

lemma pitch_class_in_f_spec:
  "0 < OCTAVE cfg \<Longrightarrow> pitch_class_in_f cfg T x = Inr (pitch_class_spec cfg (length x) T)"
  unfolding pitch_class_spec_def by (rule pitch_class_in_f_eq)

text \<open>
  Claim C9, as amended. Let \<open>OCTAVE\<close> be positive and \<open>NUM_NOTES\<close> not a multiple of it.
  Nothing validates the configuration up front, and the pitch-class construction does not
  fail: it returns the well-formed feature of shape (B, T, NUM_NOTES, OCTAVE) whose row for
  note \<open>i\<close> is the one-hot vector of \<open>i mod OCTAVE\<close>, as the specification words it. The
  model as a whole always fails: packing the pitch-bin slices, whose static lengths differ,
  is a shape mismatch of the tensor engine, and every call of the model, whatever arrays
  it is given, returns that shape mismatch.
\<close>

theorem indivisible_notes:
  assumes "0 < OCTAVE cfg" and "\<not> OCTAVE cfg dvd NUM_NOTES cfg"
  shows "pitch_class_in_f cfg T x = Inr (pitch_class_spec cfg (length x) T)
     \<and> shape4 (length x) T (NUM_NOTES cfg) (OCTAVE cfg) (pitch_class_spec cfg (length x) T)
     \<and> pitch_bins_f cfg T x = Inl ShapeMismatch
     \<and> model_call cfg w T input_dropout dropout training rng inputs = Inl ShapeMismatch"
proof (intro conjI)
  show "pitch_class_in_f cfg T x = Inr (pitch_class_spec cfg (length x) T)"
    using assms(1) by (rule pitch_class_in_f_spec)
next
  show "shape4 (length x) T (NUM_NOTES cfg) (OCTAVE cfg) (pitch_class_spec cfg (length x) T)"
    by (simp add: pitch_class_spec_def shape4_def shape3_def shape2_def list_all_iff
          length_one_hot)
next
  show "pitch_bins_f cfg T x = Inl ShapeMismatch"
    using assms by (rule pitch_bins_f_ragged)
next
  show "model_call cfg w T input_dropout dropout training rng inputs = Inl ShapeMismatch"
    using assms by (rule model_call_ragged)
qed

theorem indivisible_notes_witness:
  "pitch_class_in_f short_config 16 [] = Inr (pitch_class_spec short_config 0 16)
   \<and> pitch_bins_f short_config 16 [] = Inl ShapeMismatch
   \<and> model_call short_config example_weights 16 0 0 False keep_all [] = Inl ShapeMismatch"
proof -
  have oct: "0 < OCTAVE short_config" by (simp add: short_config_def example_config_def)
  have nd: "\<not> OCTAVE short_config dvd NUM_NOTES short_config"
    by (simp add: short_config_def example_config_def)
  from indivisible_notes [OF oct nd, of 16 "[]" example_weights 0 0 False keep_all "[]"]
  show ?thesis by simp
qed

lemma notes_short_shape: "shape4 2 16 50 2 notes_short"
  by (simp add: notes_short_def shape4_def shape3_def shape2_def list_all_iff)

lemma beat_example_shape: "shape3 2 16 2 beat_example"
  by (simp add: beat_example_def shape3_def shape2_def list_all_iff)

lemma style_example_shape: "shape3 2 16 4 style_example"
  by (simp add: style_example_def shape3_def shape2_def list_all_iff)

text \<open>
  Claim C9 as stated fails at 50 notes in octaves of 12: the pitch-class feature is the one
  the specification words, row by row, so it is not an incorrect one; and nothing is
  silent, the call of the model on arrays of the declared shapes fails with the shape
  mismatch.
\<close>

theorem pitch_class_not_misaligned:
  "pitch_class_in_f short_config 16 notes_short = Inr (pitch_class_spec short_config 2 16)
   \<and> pitch_class_spec short_config 2 16 ! 1 ! 15 ! 49 = one_hot 1 12
   \<and> model_call short_config example_weights 16 (1 / 5) (1 / 2) True keep_all
        [Rank4 notes_short, Rank4 notes_short, Rank3 beat_example, Rank3 style_example]
      = Inl ShapeMismatch"
proof -
  have oct: "0 < OCTAVE short_config" by (simp add: short_config_def example_config_def)
  have nd: "\<not> OCTAVE short_config dvd NUM_NOTES short_config"
    by (simp add: short_config_def example_config_def)
  have "length notes_short = 2" by (simp add: notes_short_def)
  then have a: "pitch_class_in_f short_config 16 notes_short
                = Inr (pitch_class_spec short_config 2 16)"
    using pitch_class_in_f_spec[OF oct, of 16 notes_short] by simp
  have b: "pitch_class_spec short_config 2 16 ! 1 ! 15 ! 49 = one_hot 1 12"
    by (simp add: pitch_class_spec_def short_config_def example_config_def)
  show ?thesis using a b model_call_ragged[OF oct nd] by simp
qed

section \<open>The output of the model\<close>

lemma notes_example_shape: "shape4 2 16 48 2 notes_example"
  by (simp add: notes_example_def shape4_def shape3_def shape2_def list_all_iff)

text \<open>
  Claim C3. For a configuration whose notes are a positive whole number of octaves, a
  positive number of time steps and input arrays of the declared shapes, the model
  returns \<open>notes_out\<close> of shape (B, T, NUM_NOTES, 2) with every entry in the closed interval
  from 0 to 1, whatever the weights, the dropout rates, the masks and the phase are.
\<close>

theorem notes_out_range:
  assumes "0 < OCTAVE cfg" and "0 < NUM_OCTAVES cfg"
    and "NUM_NOTES cfg = NUM_OCTAVES cfg * OCTAVE cfg"
    and "0 < T"
    and "shape4 B T (NUM_NOTES cfg) 2 notes_in"
    and "shape4 B T (NUM_NOTES cfg) 2 chosen_in"
    and "shape3 B T 2 beat_in"
    and "shape3 B T (NUM_STYLES cfg) style_in"
  shows "\<exists>y. model_call cfg w T input_dropout dropout training rng
               [Rank4 notes_in, Rank4 chosen_in, Rank3 beat_in, Rank3 style_in] = Inr y
     \<and> shape4 B T (NUM_NOTES cfg) 2 y
     \<and> (\<forall>b<B. \<forall>t<T. \<forall>n<NUM_NOTES cfg. \<forall>c<2. 0 \<le> y ! b ! t ! n ! c \<and> y ! b ! t ! n ! c \<le> 1)"
proof -
  have Npos: "0 < NUM_NOTES cfg" using assms(1-3) by simp
  show ?thesis
    unfolding model_call_valid[OF assms(5-8)]
    using assms(1,3) Npos assms(4-8) by (rule forward_ok)
qed

theorem notes_out_range_witness:
  "\<exists>y. model_call example_config example_weights 16 (1 / 5) (1 / 2) True (\<lambda>_ _. True)
          [Rank4 notes_example, Rank4 chosen_example, Rank3 beat_example, Rank3 style_example]
        = Inr y
     \<and> shape4 2 16 48 2 y \<and> 0 \<le> y ! 1 ! 15 ! 47 ! 1 \<and> y ! 1 ! 15 ! 47 ! 1 \<le> 1"
proof -
  have oct: "0 < OCTAVE example_config" and no: "0 < NUM_OCTAVES example_config"
    and N: "NUM_NOTES example_config = NUM_OCTAVES example_config * OCTAVE example_config"
    by (simp_all add: example_config_def)
  have T: "0 < (16::nat)" by simp
  have nsh: "shape4 2 16 (NUM_NOTES example_config) 2 notes_example"
    using notes_example_shape by (simp add: example_config_def)
  have csh: "shape4 2 16 (NUM_NOTES example_config) 2 chosen_example"
    using chosen_example_shape by (simp add: example_config_def)
  have bsh: "shape3 2 16 2 beat_example" by (rule beat_example_shape)
  have ssh: "shape3 2 16 (NUM_STYLES example_config) style_example"
    using style_example_shape by (simp add: example_config_def)
  from notes_out_range [OF oct no N T nsh csh bsh ssh,
         of example_weights "1 / 5" "1 / 2" True "\<lambda>_ _. True"]
  obtain y where y: "model_call example_config example_weights 16 (1 / 5) (1 / 2) True (\<lambda>_ _. True)
          [Rank4 notes_example, Rank4 chosen_example, Rank3 beat_example, Rank3 style_example]
        = Inr y"
    and sh: "shape4 2 16 (NUM_NOTES example_config) 2 y"
    and v: "\<forall>b<2. \<forall>t<16. \<forall>n<NUM_NOTES example_config. \<forall>c<2.
              0 \<le> y ! b ! t ! n ! c \<and> y ! b ! t ! n ! c \<le> 1"
    by blast
  have "0 \<le> y ! 1 ! 15 ! 47 ! 1 \<and> y ! 1 ! 15 ! 47 ! 1 \<le> 1"
    using v by (simp add: example_config_def)
  moreover have "shape4 2 16 48 2 y" using sh by (simp add: example_config_def)
  ultimately show ?thesis using y by blast
qed

section \<open>The embedding stage\<close>

lemma Dense3_nth:
  assumes "shape2 a b x" "i < a" "j < b"
  shows "Dense3 units w act x ! i ! j = Dense units w act (x ! i ! j)"
  using assms shape2_nth[OF assms(1,2)] by (simp add: Dense3_def shape2_def)

lemma Dense_nth:
  "u < units \<Longrightarrow> Dense units w act v ! u
     = act (sum_list (map (\<lambda>i. v ! i * fst w ! i ! u) [0..<length v]) + snd w ! u)"
  by (simp add: Dense_def)

lemma Activation3_nth:
  assumes "shape3 a b c x" "i < a" "j < b" "k < c"
  shows "Activation3 f x ! i ! j ! k = f (x ! i ! j ! k)"
proof -
  have xi: "shape2 b c (x ! i)" using assms(1,2) by (rule shape3_nth)
  have "length (x ! i ! j) = c" using xi assms(3) by (rule shape2_nth)
  then show ?thesis using assms xi by (simp add: Activation3_def shape3_def shape2_def)
qed

text \<open>
  Claim C4, as amended. In the embedding stage the beat input is projected by a learned
  linear layer followed by the nonlinearity \<open>tanh\<close>; the style input is projected by a
  learned linear layer alone. With dropout off, every unit of the beat embedding is \<open>tanh\<close>
  of the affine projection of the beat input, and every unit of the style embedding is the
  affine projection of the style input itself.
\<close>

theorem embedding_stage:
  assumes ssh: "shape3 B T (NUM_STYLES cfg) style_in" and bsh: "shape3 B T 2 beat_in"
  shows "\<forall>b<B. \<forall>t<T.
      (\<forall>u<STYLE_UNITS cfg.
          style_embedding cfg w 0 0 training rng style_in ! b ! t ! u
          = sum_list (map (\<lambda>i. style_in ! b ! t ! i * fst (style_w w) ! i ! u) [0..<NUM_STYLES cfg])
            + snd (style_w w) ! u)
    \<and> (\<forall>u<BEAT_UNITS cfg.
          beat_embedding cfg w 0 0 training rng beat_in ! b ! t ! u
          = tanh (sum_list (map (\<lambda>i. beat_in ! b ! t ! i * fst (beat_w w) ! i ! u) [0..<2])
                  + snd (beat_w w) ! u))"
proof (intro allI impI conjI)
  fix b t u assume b: "b < B" and t: "t < T" and u: "u < STYLE_UNITS cfg"
  have len: "length (style_in ! b ! t) = NUM_STYLES cfg"
    using shape3_nth[OF ssh b] t by (rule shape2_nth)
  have "style_embedding cfg w 0 0 training rng style_in ! b ! t
        = Dense (STYLE_UNITS cfg) (style_w w) linear_act (style_in ! b ! t)"
    unfolding style_embedding_off using shape3_outer[OF ssh] b t by (rule Dense3_nth)
  then show "style_embedding cfg w 0 0 training rng style_in ! b ! t ! u
          = sum_list (map (\<lambda>i. style_in ! b ! t ! i * fst (style_w w) ! i ! u) [0..<NUM_STYLES cfg])
            + snd (style_w w) ! u"
    using u len by (simp add: Dense_nth linear_act_def)
next
  fix b t u assume b: "b < B" and t: "t < T" and u: "u < BEAT_UNITS cfg"
  have len: "length (beat_in ! b ! t) = 2"
    using shape3_nth[OF bsh b] t by (rule shape2_nth)
  have d: "shape3 B T (BEAT_UNITS cfg) (Dense3 (BEAT_UNITS cfg) (beat_w w) linear_act beat_in)"
    using shape3_outer[OF bsh] by (rule Dense3_shape)
  have "beat_embedding cfg w 0 0 training rng beat_in ! b ! t ! u
        = tanh (Dense3 (BEAT_UNITS cfg) (beat_w w) linear_act beat_in ! b ! t ! u)"
    unfolding beat_embedding_off using d b t u by (rule Activation3_nth)
  also have "Dense3 (BEAT_UNITS cfg) (beat_w w) linear_act beat_in ! b ! t
             = Dense (BEAT_UNITS cfg) (beat_w w) linear_act (beat_in ! b ! t)"
    using shape3_outer[OF bsh] b t by (rule Dense3_nth)
  finally show "beat_embedding cfg w 0 0 training rng beat_in ! b ! t ! u
          = tanh (sum_list (map (\<lambda>i. beat_in ! b ! t ! i * fst (beat_w w) ! i ! u) [0..<2])
                  + snd (beat_w w) ! u)"
    using u len by (simp add: Dense_nth linear_act_def)
qed

theorem embedding_stage_witness:
  "style_embedding example_config probe_weights 0 0 True (\<lambda>_ _. False) style_example ! 1 ! 3 ! 0 = 1
   \<and> beat_embedding example_config probe_weights 0 0 True (\<lambda>_ _. False) beat_example ! 1 ! 3 ! 1 = tanh 1"
proof -
  have ssh: "shape3 2 16 (NUM_STYLES example_config) style_example"
    using style_example_shape by (simp add: example_config_def)
  have bsh: "shape3 2 16 2 beat_example" by (rule beat_example_shape)
  note th = embedding_stage [OF ssh bsh, of probe_weights True "\<lambda>_ _. False"]
  have s: "style_embedding example_config probe_weights 0 0 True (\<lambda>_ _. False) style_example ! 1 ! 3 ! 0
        = sum_list (map (\<lambda>i. style_example ! 1 ! 3 ! i * fst (style_w probe_weights) ! i ! 0)
                      [0..<NUM_STYLES example_config])
          + snd (style_w probe_weights) ! 0"
    using th by (simp add: example_config_def)
  have b: "beat_embedding example_config probe_weights 0 0 True (\<lambda>_ _. False) beat_example ! 1 ! 3 ! 1
        = tanh (sum_list (map (\<lambda>i. beat_example ! 1 ! 3 ! i * fst (beat_w probe_weights) ! i ! 1) [0..<2])
                + snd (beat_w probe_weights) ! 1)"
    using th by (simp add: example_config_def)
  have nums: "[0..<NUM_STYLES example_config] = [0, 1, 2, 3]" "[0..<2] = [0, Suc 0]"
    by (simp_all add: example_config_def upt_rec)
  show ?thesis
    unfolding s b nums
    by (simp add: style_example_def beat_example_def probe_weights_def)
qed

text \<open>
  Claim C4 as stated fails for the style: with a kernel that copies the first three inputs
  and a zero bias, the style embedding of (2, 0, 0, 0) is (2, 0, 0), the projection
  itself, and not the projection passed through the nonlinearity that the beat embedding
  applies, which would lie below 1.
\<close>

theorem style_embedding_is_linear:
  "style_embedding example_config probe_weights 0 0 False keep_all [[[2, 0, 0, 0]]] = [[[2, 0, 0]]]
   \<and> embedding_spec tanh (STYLE_UNITS example_config) (style_w probe_weights) [[[2, 0, 0, 0]]]
       = [[[tanh 2, 0, 0]]]
   \<and> style_embedding example_config probe_weights 0 0 False keep_all [[[2, 0, 0, 0]]]
       \<noteq> embedding_spec tanh (STYLE_UNITS example_config) (style_w probe_weights) [[[2, 0, 0, 0]]]
   \<and> beat_embedding example_config probe_weights 0 0 False keep_all [[[2, 0]]]
       = embedding_spec tanh (BEAT_UNITS example_config) (beat_w probe_weights) [[[2, 0]]]"
proof -
  have up: "[0..<3] = [0, 1, 2]" "[0..<4] = [0, 1, 2, 3]" "[0..<2] = [0, Suc 0]"
    by (simp_all add: upt_rec)
  have d: "Dense3 3 ([[1, 0, 0], [0, 1, 0], [0, 0, 1], [0, 0, 0]], [0, 0, 0]) linear_act [[[2, 0, 0, 0]]]
           = [[[2, 0, 0]]]"
    by (simp add: Dense3_def Dense_def linear_act_def up)
  have s: "style_embedding example_config probe_weights 0 0 False keep_all [[[2, 0, 0, 0]]]
           = [[[2, 0, 0]]]"
    unfolding style_embedding_off using d by (simp add: example_config_def probe_weights_def)
  have e: "embedding_spec tanh (STYLE_UNITS example_config) (style_w probe_weights) [[[2, 0, 0, 0]]]
           = [[[tanh 2, 0, 0]]]"
    using d by (simp add: embedding_spec_def Activation3_def example_config_def probe_weights_def)
  have "tanh (2::real) < 1" by (rule tanh_real_lt_1)
  then have ne: "tanh (2::real) \<noteq> 2" by simp
  have b: "beat_embedding example_config probe_weights 0 0 False keep_all [[[2, 0]]]
       = embedding_spec tanh (BEAT_UNITS example_config) (beat_w probe_weights) [[[2, 0]]]"
    unfolding beat_embedding_off embedding_spec_def by (rule refl)
  show ?thesis using s e ne b by simp
qed

section \<open>The training objective\<close>

lemma mean_pair: "length r = 2 \<Longrightarrow> mean r = sum_list r / 2"
  by (simp add: mean_def)

lemma sum_means1:
  "list_all (\<lambda>r. length r = 2) rows \<Longrightarrow> sum_list (map mean rows) = sum_list (concat rows) / 2"
  by (induction rows) (simp_all add: mean_pair add_divide_distrib)

lemma sum_means2:
  "list_all (list_all (\<lambda>r. length r = 2)) m
   \<Longrightarrow> sum_list (concat (map (map mean) m)) = sum_list (concat (map concat m)) / 2"
  by (induction m) (simp_all add: sum_means1 add_divide_distrib)

lemma sum_means3:
  "list_all (list_all (list_all (\<lambda>r. length r = 2))) x
   \<Longrightarrow> sum_list (flat3 (map (map (map mean)) x)) = sum_list (flat4 x) / 2"
  unfolding flat3_def flat4_def
  by (induction x) (simp_all add: sum_means2 add_divide_distrib flat3_def)

lemma map_map2: "map f (map2 g xs ys) = map2 (\<lambda>x y. f (g x y)) xs ys"
  by (simp add: case_prod_unfold)

lemma binary_crossentropy_means:
  "binary_crossentropy y_true y_pred
   = map (map (map mean)) (map2 (map2 (map2 (map2 K_binary_crossentropy))) y_true y_pred)"
  by (simp only: binary_crossentropy_def map_map2)

lemma elementwise_shape:
  assumes "shape4 B T N C y_true" "shape4 B T N C y_pred"
  shows "shape4 B T N C (map2 (map2 (map2 (map2 f))) y_true y_pred)"
proof (rule shape4I)
  show "length (map2 (map2 (map2 (map2 f))) y_true y_pred) = B"
    using assms by (simp add: shape4_def)
next
  fix i assume i: "i < B"
  have e: "map2 (map2 (map2 (map2 f))) y_true y_pred ! i
           = map2 (map2 (map2 f)) (y_true ! i) (y_pred ! i)"
    using assms i by (simp add: shape4_def)
  show "shape3 T N C (map2 (map2 (map2 (map2 f))) y_true y_pred ! i)"
    unfolding e using shape4_nth[OF assms(1) i] shape4_nth[OF assms(2) i]
    by (auto intro!: shape3_map2 shape2_map2)
qed


lemma shape4_all:
  "shape4 B T N C x \<Longrightarrow> list_all (list_all (list_all (\<lambda>r. length r = C))) x"
  by (auto simp: shape4_def shape3_def shape2_def list_all_iff)

lemma shape3_map3: "shape3 a b c x \<Longrightarrow> shape3 a b c (map (map (map f)) x)"
  by (auto simp: shape3_def shape2_def list_all_iff)

lemma total_loss_single:
  "total_loss compile_config [y_true] [y_pred] = mean (flat3 (primary_loss y_true y_pred))"
  by (simp add: total_loss_def compile_config_def)

text \<open>
  Claim C7. The compiled model carries exactly one loss, \<open>primary_loss\<close>, for its one
  output. For every target and prediction of shape (B, T, N, 2) the objective is the
  element-wise binary cross-entropy averaged over all \<open>B * T * N * 2\<close> positions. The
  function \<open>style_loss\<close> is half the categorical cross-entropy and is no member of the
  compiled losses.
\<close>

theorem compiled_objective:
  assumes "shape4 B T N 2 y_true" and "shape4 B T N 2 y_pred"
  shows "loss compile_config = [primary_loss]
     \<and> total_loss compile_config [y_true] [y_pred]
         = sum_list (flat4 (map2 (map2 (map2 (map2 K_binary_crossentropy))) y_true y_pred))
           / real (B * T * N * 2)
     \<and> style_loss s_true s_pred
         = map (map (\<lambda>v. 0.5 * v)) (categorical_crossentropy s_true s_pred)"
proof (intro conjI)
  show "loss compile_config = [primary_loss]" by (simp add: compile_config_def)
next
  define E where "E = map2 (map2 (map2 (map2 K_binary_crossentropy))) y_true y_pred"
  have E: "shape4 B T N 2 E" unfolding E_def using assms by (rule elementwise_shape)
  have L: "primary_loss y_true y_pred = map (map (map mean)) E"
    by (simp only: primary_loss_def binary_crossentropy_means E_def)
  have Lsh: "shape3 B T N (map (map (map mean)) E)"
    using shape4_outer[OF E] by (rule shape3_map3)
  have len: "length (flat3 (map (map (map mean)) E)) = B * (T * N)"
    using Lsh by (rule length_flat3)
  have sum: "sum_list (flat3 (map (map (map mean)) E)) = sum_list (flat4 E) / 2"
    using shape4_all[OF E] by (rule sum_means3)
  have "total_loss compile_config [y_true] [y_pred]
        = sum_list (flat4 E) / 2 / real (B * (T * N))"
    unfolding total_loss_single L mean_def len sum by (rule refl)
  also have "\<dots> = sum_list (flat4 E) / real (B * T * N * 2)" by simp
  finally show "total_loss compile_config [y_true] [y_pred]
         = sum_list (flat4 (map2 (map2 (map2 (map2 K_binary_crossentropy))) y_true y_pred))
           / real (B * T * N * 2)"
    unfolding E_def .
next
  show "style_loss s_true s_pred
         = map (map (\<lambda>v. 0.5 * v)) (categorical_crossentropy s_true s_pred)"
    by (simp add: style_loss_def)
qed

theorem compiled_objective_witness:
  "loss compile_config = [primary_loss]
   \<and> total_loss compile_config [notes_example] [chosen_example]
       = sum_list (flat4 (map2 (map2 (map2 (map2 K_binary_crossentropy))) notes_example chosen_example))
         / 3072"
proof -
  from compiled_objective [OF notes_example_shape chosen_example_shape]
  show ?thesis by simp
qed

section \<open>The order of the inputs\<close>




















































end
